theory Spec2Isabelle
  imports Main
begin

section \<open>Strings\<close>

text \<open>
  A JavaScript string is a sequence of UTF-16 code units; the regular expressions of the
  upload handler carry no \<^verbatim>\<open>u\<close> flag, so they work on code units. A code unit is
  kept as its number.
\<close>

type_synonym jsstring = "nat list"

definition js :: "string \<Rightarrow> jsstring" where
  "js s = map of_char s"

text \<open>Decimal rendering of a non-negative integer inside a template literal.\<close>

fun digits :: "nat \<Rightarrow> jsstring" where
  "digits n = (if n < 10 then [48 + n] else digits (n div 10) @ [48 + n mod 10])"

declare digits.simps [simp del]

text \<open>\<^verbatim>\<open>String.prototype.includes\<close>.\<close>

fun starts_with :: "jsstring \<Rightarrow> jsstring \<Rightarrow> bool" where
  "starts_with s [] = True"
| "starts_with [] (d # ds) = False"
| "starts_with (c # cs) (d # ds) = (c = d \<and> starts_with cs ds)"

fun includes_str :: "jsstring \<Rightarrow> jsstring \<Rightarrow> bool" where
  "includes_str [] n = (n = [])"
| "includes_str (c # cs) n = (starts_with (c # cs) n \<or> includes_str cs n)"

text \<open>\<^verbatim>\<open>s.split(".")\<close>: the segments between the separators, never an empty array.\<close>

fun split_on :: "nat \<Rightarrow> jsstring \<Rightarrow> jsstring list" where
  "split_on d [] = [[]]"
| "split_on d (c # cs) =
     (if c = d then [] # split_on d cs
      else (case split_on d cs of
              [] \<Rightarrow> [[c]]
            | s # ss \<Rightarrow> (c # s) # ss))"

text \<open>
  \<^verbatim>\<open>(size / (1024 * 1024)).toFixed(2)\<close>. The quotient by \<open>2^20\<close> is exact in
  double precision for every byte count below \<open>2^53\<close>, and \<^verbatim>\<open>toFixed\<close> takes the
  integer \<open>n\<close> with \<open>n / 100\<close> closest to it, the larger one on a tie: \<open>n\<close> is the
  quotient times 100, rounded half up.
\<close>

definition hundredths_MB :: "nat \<Rightarrow> nat" where
  "hundredths_MB bytes = (bytes * 100 + 524288) div 1048576"

definition toFixed2_MB :: "nat \<Rightarrow> jsstring" where
  "toFixed2_MB bytes =
     (let n = hundredths_MB bytes
      in digits (n div 100) @ [46, 48 + n mod 100 div 10, 48 + n mod 10])"

section \<open>Filename normalizer\<close>

text \<open>The class \<^verbatim>\<open>\w\<close>: ASCII digits, ASCII letters and the underscore.\<close>

definition is_word :: "nat \<Rightarrow> bool" where
  "is_word c = ((48 \<le> c \<and> c \<le> 57) \<or> (65 \<le> c \<and> c \<le> 90) \<or> c = 95 \<or> (97 \<le> c \<and> c \<le> 122))"

text \<open>
  The class \<^verbatim>\<open>\s\<close>, which is also what \<^verbatim>\<open>trim\<close> strips: TAB, LF, VT, FF, CR,
  space, U+00A0, U+1680, U+2000 to U+200A, U+2028, U+2029, U+202F, U+205F, U+3000, U+FEFF.
\<close>

definition is_space :: "nat \<Rightarrow> bool" where
  "is_space c =
     ((9 \<le> c \<and> c \<le> 13) \<or> c = 32 \<or> c = 160 \<or> c = 5760 \<or> (8192 \<le> c \<and> c \<le> 8202)
      \<or> c = 8232 \<or> c = 8233 \<or> c = 8239 \<or> c = 8287 \<or> c = 12288 \<or> c = 65279)"

text \<open>\<^verbatim>\<open>.replace(/[^\w\s.-]/g, " ")\<close>\<close>

definition replace_special :: "jsstring \<Rightarrow> jsstring" where
  "replace_special s =
     map (\<lambda>c. if is_word c \<or> is_space c \<or> c = 46 \<or> c = 45 then c else 32) s"

text \<open>\<^verbatim>\<open>.replace(/\s+/g, " ")\<close>: every maximal run of white space becomes one space.\<close>

function collapse_spaces :: "jsstring \<Rightarrow> jsstring" where
  "collapse_spaces [] = []"
| "collapse_spaces (c # cs) =
     (if is_space c then 32 # collapse_spaces (dropWhile is_space cs)
      else c # collapse_spaces cs)"
  by pat_completeness auto
termination
  by (relation "measure length") (auto simp: length_dropWhile_le less_Suc_eq_le)

text \<open>\<^verbatim>\<open>.trim()\<close>\<close>

definition rtrim :: "jsstring \<Rightarrow> jsstring" where
  "rtrim s = rev (dropWhile is_space (rev s))"

definition trim :: "jsstring \<Rightarrow> jsstring" where
  "trim s = rtrim (dropWhile is_space s)"

definition normalize :: "jsstring \<Rightarrow> jsstring" where
  "normalize s = trim (collapse_spaces (replace_special s))"

subsection \<open>The normalizer as the specification words it\<close>

text \<open>
  The specification's reading of the first step: every character outside alphanumerics,
  white space, the dot and the hyphen becomes a space.
\<close>

definition is_alnum :: "nat \<Rightarrow> bool" where
  "is_alnum c = ((48 \<le> c \<and> c \<le> 57) \<or> (65 \<le> c \<and> c \<le> 90) \<or> (97 \<le> c \<and> c \<le> 122))"

definition spec_replace :: "jsstring \<Rightarrow> jsstring" where
  "spec_replace s =
     map (\<lambda>c. if is_alnum c \<or> is_space c \<or> c = 46 \<or> c = 45 then c else 32) s"

definition spec_normalize :: "jsstring \<Rightarrow> jsstring" where
  "spec_normalize s = trim (collapse_spaces (spec_replace s))"

text \<open>
  An independent description of collapsing and trimming: the maximal runs of characters
  that are not white space, joined by single spaces.
\<close>

function tokens :: "jsstring \<Rightarrow> jsstring list" where
  "tokens [] = []"
| "tokens (c # cs) =
     (if is_space c then tokens cs
      else (c # takeWhile (\<lambda>x. \<not> is_space x) cs)
             # tokens (dropWhile (\<lambda>x. \<not> is_space x) cs))"
  by pat_completeness auto
termination
  by (relation "measure length") (auto simp: length_dropWhile_le less_Suc_eq_le)

fun unwords :: "jsstring list \<Rightarrow> jsstring" where
  "unwords [] = []"
| "unwords [w] = w"
| "unwords (w # v # ws) = w @ 32 # unwords (v # ws)"

definition kept :: "nat \<Rightarrow> bool" where
  "kept c = (is_word c \<or> is_space c \<or> c = 46 \<or> c = 45)"

section \<open>Values\<close>

text \<open>
  What \<^verbatim>\<open>JSON.parse\<close> can give and what a response can carry. A number is kept as the
  text \<^verbatim>\<open>String(n)\<close> gives for it, which is \<open>0\<close> for both zeros.
\<close>

datatype json =
    JNull
  | JBool bool
  | JNum jsstring
  | JStr jsstring
  | JArr "json list"
  | JObj "(jsstring \<times> json) list"

text \<open>
  What the variable \<^verbatim>\<open>documentType\<close> can hold: \<^verbatim>\<open>undefined\<close>, a parsed value, or
  the member that a prototype holds under a name (a built-in function such as
  \<^verbatim>\<open>Object.prototype.toString\<close>, or, under \<^verbatim>\<open>__proto__\<close>, a prototype object).
\<close>

datatype jsvalue = Undefined | Builtin jsstring | Value json

text \<open>\<^verbatim>\<open>!documentType\<close>\<close>

definition falsy :: "jsvalue \<Rightarrow> bool" where
  "falsy v =
     (case v of
        Undefined \<Rightarrow> True
      | Builtin name \<Rightarrow> False
      | Value JNull \<Rightarrow> True
      | Value (JBool b) \<Rightarrow> \<not> b
      | Value (JNum t) \<Rightarrow> t = js ''0''
      | Value (JStr s) \<Rightarrow> s = []
      | Value (JArr xs) \<Rightarrow> False
      | Value (JObj kvs) \<Rightarrow> False)"

text \<open>
  Conversion to a string inside a template literal. An array joins its elements with
  commas, \<^verbatim>\<open>null\<close> elements as empty strings. An object from \<^verbatim>\<open>JSON.parse\<close> gives
  \<^verbatim>\<open>[object Object]\<close> unless it has an own entry \<^verbatim>\<open>toString\<close>, which is no function:
  then neither that nor \<^verbatim>\<open>valueOf\<close> gives a primitive and a TypeError is thrown
  (\<open>None\<close>).
\<close>

fun json_text :: "json \<Rightarrow> jsstring option"
  and join_texts :: "json list \<Rightarrow> jsstring option" where
  "json_text JNull = Some (js ''null'')"
| "json_text (JBool b) = Some (if b then js ''true'' else js ''false'')"
| "json_text (JNum t) = Some t"
| "json_text (JStr s) = Some s"
| "json_text (JArr xs) = join_texts xs"
| "json_text (JObj kvs) =
     (if js ''toString'' \<in> set (map fst kvs) then None else Some (js ''[object Object]''))"
| "join_texts [] = Some []"
| "join_texts (x # xs) =
     (case (if x = JNull then Some [] else json_text x) of
        None \<Rightarrow> None
      | Some t \<Rightarrow>
          if xs = [] then Some t
          else (case join_texts xs of None \<Rightarrow> None | Some ts \<Rightarrow> Some (t @ js '','' @ ts)))"

text \<open>
  \<^verbatim>\<open>JSON.stringify\<close> followed by the client's parse: a number that is not finite is
  written as \<^verbatim>\<open>null\<close>, everything else as it is.
\<close>

fun written :: "json \<Rightarrow> json" where
  "written JNull = JNull"
| "written (JBool b) = JBool b"
| "written (JNum t) = (if t = js ''Infinity'' \<or> t = js ''-Infinity'' then JNull else JNum t)"
| "written (JStr s) = JStr s"
| "written (JArr xs) = JArr (map written xs)"
| "written (JObj kvs) = JObj (map (\<lambda>(k, v). (k, written v)) kvs)"

section \<open>The parsed mapping\<close>

text \<open>
  The text field \<^verbatim>\<open>documentMappings\<close> is parsed with \<^verbatim>\<open>JSON.parse\<close>; the declared
  type \<^verbatim>\<open>Record<string, string>\<close> is not checked when the handler runs. A parsed value
  other than \<^verbatim>\<open>null\<close> is an object (the list of its own entries in the order of
  \<^verbatim>\<open>Object.entries\<close>), an array, a string, a number (by its text) or a boolean.
\<close>

datatype mappings =
    MObject "(jsstring \<times> json) list"
  | MArray "json list"
  | MString jsstring
  | MNumber jsstring
  | MBoolean bool

text \<open>
  The field as sent: absent or empty (then \<^verbatim>\<open>"{}"\<close> is parsed), a text that
  \<^verbatim>\<open>JSON.parse\<close> rejects, the text \<^verbatim>\<open>null\<close>, or the text of another value.
\<close>

datatype mappings_field = NotSent | Unparsable | ParsedNull | Parsed mappings

text \<open>The members of \<^verbatim>\<open>Object.prototype\<close>, which every value other than \<^verbatim>\<open>null\<close> inherits.\<close>

definition object_prototype_names :: "jsstring list" where
  "object_prototype_names =
     [js ''constructor'', js ''__defineGetter__'', js ''__defineSetter__'',
      js ''hasOwnProperty'', js ''__lookupGetter__'', js ''__lookupSetter__'',
      js ''isPrototypeOf'', js ''propertyIsEnumerable'', js ''toString'', js ''valueOf'',
      js ''__proto__'', js ''toLocaleString'']"

text \<open>
  The own properties: the entries of an object; the elements and the length of an array;
  the characters and the length of a string; none for a number or a boolean.
\<close>

definition index_of :: "jsstring \<Rightarrow> nat \<Rightarrow> nat option" where
  "index_of name n = find (\<lambda>k. digits k = name) [0..<n]"

definition own_member :: "mappings \<Rightarrow> jsstring \<Rightarrow> json option" where
  "own_member m name =
     (case m of
        MObject kvs \<Rightarrow> map_of kvs name
      | MArray xs \<Rightarrow>
          (if name = js ''length'' then Some (JNum (digits (length xs)))
           else map_option (\<lambda>k. xs ! k) (index_of name (length xs)))
      | MString s \<Rightarrow>
          (if name = js ''length'' then Some (JNum (digits (length s)))
           else map_option (\<lambda>k. JStr [s ! k]) (index_of name (length s)))
      | MNumber t \<Rightarrow> None
      | MBoolean b \<Rightarrow> None)"

text \<open>\<^verbatim>\<open>Object.entries(mappings)\<close>\<close>

definition entries :: "mappings \<Rightarrow> (jsstring \<times> json) list" where
  "entries m =
     (case m of
        MObject kvs \<Rightarrow> kvs
      | MArray xs \<Rightarrow> map (\<lambda>k. (digits k, xs ! k)) [0..<length xs]
      | MString s \<Rightarrow> map (\<lambda>k. (digits k, JStr [s ! k])) [0..<length s]
      | MNumber t \<Rightarrow> []
      | MBoolean b \<Rightarrow> [])"

section \<open>Requests, rows and responses\<close>

text \<open>
  A file part of the request. The bytes themselves are only passed on to the object
  store; \<open>size_bytes\<close> is \<^verbatim>\<open>file.size\<close>.
\<close>

record upfile =
  fieldname :: jsstring
  originalname :: jsstring
  mimetype :: jsstring
  size_bytes :: nat

text \<open>A multipart request.\<close>

record request =
  http_method :: jsstring
  url :: "jsstring option"
  sent_files :: "upfile list"
  userId :: "jsstring option"
  businessId :: "jsstring option"
  documentMappings :: mappings_field

record response =
  status :: nat
  body :: json

record provider_row =
  user_id :: jsstring
  provider_business_id :: jsstring
  provider_role :: jsstring

record profile_row =
  profile_id :: jsstring
  business_type :: jsstring
  profile_verification_status :: jsstring
  setup_step :: nat
  updated_at :: jsstring

text \<open>
  A row of \<^verbatim>\<open>business_documents\<close>. In a stored row the document type is the text of
  the column; in the data handed to an insert it is whatever \<^verbatim>\<open>documentType\<close> holds.
\<close>

record 'a document_row =
  doc_id :: jsstring
  business_id :: jsstring
  document_type :: 'a
  document_name :: jsstring
  file_url :: jsstring
  file_size_bytes :: nat
  verification_status :: jsstring
  uploaded_at :: jsstring

section \<open>The remote services and the runtime\<close>

text \<open>Every call to the object store or to the row store is logged in the order it is made.\<close>

datatype call =
    ProviderSelect jsstring jsstring
  | ProfileSelect jsstring
  | StorageUpload jsstring jsstring
  | DocumentInsert "jsvalue document_row"
  | StorageRemove jsstring
  | ExistingSelect jsstring
  | SetupStepUpdate jsstring nat
  | QualifyingSelect jsstring
  | FinalSelect jsstring

record world =
  providers :: "provider_row list"
  profiles :: "profile_row list"
  documents :: "jsstring document_row list"
  blobs :: "jsstring list"
  calls :: "call list"

text \<open>
  What the handler cannot decide: the clock, whether a remote call fails, and what the
  runtime and the database do with values that are not strings. The field
  \<open>now\<close> is the reading of \<^verbatim>\<open>Date.now()\<close> for the file at a position, \<open>now_iso\<close> is
  \<^verbatim>\<open>new Date().toISOString()\<close>, \<open>stored_path\<close> is the path the store reports for a
  write (\<^verbatim>\<open>uploadData.path\<close>), \<open>new_id\<close> and \<open>new_uploaded_at\<close> are the columns the
  database fills in for the row of the file at a position, \<open>column_text\<close> is what the
  database stores in the type column for a value that is not a string. A remote call
  that fails returns its error in the result, which is how the handler reads it
  (\<^verbatim>\<open>{ data, error }\<close>); it does not throw.

  Of the runtime: \<open>prototype_names\<close> are the names of the members of the prototype of an
  array, a string, a number or a boolean (they grow with the language version),
  \<open>builtin_text\<close> is the string a built-in member converts to, \<open>builtin_json\<close> is what
  \<^verbatim>\<open>JSON.stringify\<close> writes for it (nothing for a function), \<open>null_read_text\<close> is the
  message of the TypeError for reading a property of \<^verbatim>\<open>null\<close>, \<open>not_primitive_text\<close>
  the message of the TypeError for an object that converts to no primitive.
\<close>

record env =
  now :: "nat \<Rightarrow> nat"
  now_iso :: jsstring
  upload_error :: "nat \<Rightarrow> jsstring option"
  stored_path :: "jsstring \<Rightarrow> jsstring"
  public_url :: "jsstring \<Rightarrow> jsstring"
  insert_error :: "nat \<Rightarrow> jsstring option"
  new_id :: "nat \<Rightarrow> jsstring"
  new_uploaded_at :: "nat \<Rightarrow> jsstring"
  column_text :: "jsvalue \<Rightarrow> jsstring"
  remove_fails :: "nat \<Rightarrow> bool"
  provider_select_fails :: bool
  profile_select_fails :: bool
  existing_select_fails :: bool
  update_fails :: bool
  qualifying_select_fails :: bool
  final_select_fails :: bool
  prototype_names :: "mappings \<Rightarrow> jsstring list"
  builtin_text :: "jsstring \<Rightarrow> jsstring"
  builtin_json :: "jsstring \<Rightarrow> json option"
  null_read_text :: "jsstring \<Rightarrow> jsstring"
  not_primitive_text :: jsstring

text \<open>\<^verbatim>\<open>.single()\<close>: the row when exactly one row matches, an error otherwise.\<close>

definition single :: "'a list \<Rightarrow> 'a option" where
  "single rows = (case rows of [r] \<Rightarrow> Some r | _ \<Rightarrow> None)"

definition select_provider ::
  "env \<Rightarrow> jsstring \<Rightarrow> jsstring \<Rightarrow> world \<Rightarrow> provider_row option \<times> world" where
  "select_provider e uid bid w =
     (if provider_select_fails e then None
      else single (filter (\<lambda>r. user_id r = uid \<and> provider_business_id r = bid
                              \<and> provider_role r = js ''owner'') (providers w)),
      w\<lparr>calls := calls w @ [ProviderSelect uid bid]\<rparr>)"

definition select_profile :: "env \<Rightarrow> jsstring \<Rightarrow> world \<Rightarrow> profile_row option \<times> world" where
  "select_profile e bid w =
     (if profile_select_fails e then None
      else single (filter (\<lambda>p. profile_id p = bid) (profiles w)),
      w\<lparr>calls := calls w @ [ProfileSelect bid]\<rparr>)"

text \<open>
  The write is made with \<^verbatim>\<open>upsert: false\<close>: the store refuses a path that already
  holds a blob.
\<close>

definition storage_upload ::
  "env \<Rightarrow> nat \<Rightarrow> jsstring \<Rightarrow> jsstring \<Rightarrow> world \<Rightarrow> (jsstring + jsstring) \<times> world" where
  "storage_upload e i filePath contentType w =
     (let w1 = w\<lparr>calls := calls w @ [StorageUpload filePath contentType]\<rparr>
      in case upload_error e i of
           Some message \<Rightarrow> (Inl message, w1)
         | None \<Rightarrow>
             if stored_path e filePath \<in> set (blobs w)
             then (Inl (js ''The resource already exists''), w1)
             else (Inr (stored_path e filePath),
                   w1\<lparr>blobs := blobs w @ [stored_path e filePath]\<rparr>))"

definition storage_remove :: "env \<Rightarrow> nat \<Rightarrow> jsstring \<Rightarrow> world \<Rightarrow> world" where
  "storage_remove e i path w =
     w\<lparr>calls := calls w @ [StorageRemove path],
       blobs := (if remove_fails e i then blobs w else removeAll path (blobs w))\<rparr>"

text \<open>
  The insert returns the stored row: the data with the columns the database fills in.
  The type column of the stored row holds the string that was sent, or for another value
  what the database makes of it.
\<close>

definition insert_document ::
  "env \<Rightarrow> nat \<Rightarrow> jsvalue document_row \<Rightarrow> world
     \<Rightarrow> (jsstring + jsstring document_row) \<times> world" where
  "insert_document e i documentData w =
     (let w1 = w\<lparr>calls := calls w @ [DocumentInsert documentData]\<rparr>
      in case insert_error e i of
           Some message \<Rightarrow> (Inl message, w1)
         | None \<Rightarrow>
             (let dbRecord =
                    \<lparr>doc_id = new_id e i,
                     business_id = business_id documentData,
                     document_type =
                       (case document_type documentData of
                          Value (JStr s) \<Rightarrow> s
                        | v \<Rightarrow> column_text e v),
                     document_name = document_name documentData,
                     file_url = file_url documentData,
                     file_size_bytes = file_size_bytes documentData,
                     verification_status = verification_status documentData,
                     uploaded_at = new_uploaded_at e i\<rparr>
              in (Inr dbRecord, w1\<lparr>documents := documents w @ [dbRecord]\<rparr>)))"

definition select_existing ::
  "env \<Rightarrow> jsstring \<Rightarrow> world \<Rightarrow> jsstring list option \<times> world" where
  "select_existing e bid w =
     (if existing_select_fails e then None
      else Some (take 1 (map doc_id (filter (\<lambda>d. business_id d = bid) (documents w)))),
      w\<lparr>calls := calls w @ [ExistingSelect bid]\<rparr>)"

definition update_setup_step :: "env \<Rightarrow> jsstring \<Rightarrow> nat \<Rightarrow> world \<Rightarrow> world" where
  "update_setup_step e bid step w =
     w\<lparr>calls := calls w @ [SetupStepUpdate bid step],
       profiles := (if update_fails e then profiles w
                    else map (\<lambda>p. if profile_id p = bid
                                   then p\<lparr>setup_step := step, updated_at := now_iso e\<rparr>
                                   else p) (profiles w))\<rparr>"

definition select_qualifying ::
  "env \<Rightarrow> jsstring \<Rightarrow> world \<Rightarrow> jsstring list option \<times> world" where
  "select_qualifying e bid w =
     (if qualifying_select_fails e then None
      else Some (map document_type
                  (filter (\<lambda>d. business_id d = bid
                               \<and> verification_status d
                                   \<in> set [js ''pending'', js ''verified'', js ''under_review''])
                          (documents w))),
      w\<lparr>calls := calls w @ [QualifyingSelect bid]\<rparr>)"

definition select_final ::
  "env \<Rightarrow> jsstring \<Rightarrow> world \<Rightarrow> jsstring document_row list option \<times> world" where
  "select_final e bid w =
     (if final_select_fails e then None
      else Some (filter (\<lambda>d. business_id d = bid) (documents w)),
      w\<lparr>calls := calls w @ [FinalSelect bid]\<rparr>)"

section \<open>Document type resolver\<close>

text \<open>
  \<^verbatim>\<open>mappings[name]\<close> for a parsed value other than \<^verbatim>\<open>null\<close>: the own property, or
  else the member that the prototype chain holds under the name, or else
  \<^verbatim>\<open>undefined\<close>. The chain of an object is \<^verbatim>\<open>Object.prototype\<close>; the chain of an
  array, a string, a number or a boolean has its own prototype in front of that.
\<close>

definition inherited_names :: "env \<Rightarrow> mappings \<Rightarrow> jsstring list" where
  "inherited_names e m =
     (case m of MObject kvs \<Rightarrow> [] | _ \<Rightarrow> prototype_names e m) @ object_prototype_names"

definition get_member :: "env \<Rightarrow> mappings \<Rightarrow> jsstring \<Rightarrow> jsvalue" where
  "get_member e m name =
     (case own_member m name of
        Some v \<Rightarrow> Value v
      | None \<Rightarrow> if name \<in> set (inherited_names e m) then Builtin name else Undefined)"

text \<open>The loop over the entries: the first key whose normal form is equal assigns and breaks.\<close>

fun match_normalized :: "jsstring \<Rightarrow> (jsstring \<times> json) list \<Rightarrow> jsvalue \<Rightarrow> jsvalue" where
  "match_normalized n [] documentType = documentType"
| "match_normalized n ((mappingKey, mappingValue) # rest) documentType =
     (if n = normalize mappingKey then Value mappingValue
      else match_normalized n rest documentType)"

definition resolve_document_type :: "env \<Rightarrow> mappings \<Rightarrow> jsstring \<Rightarrow> nat \<Rightarrow> jsvalue" where
  "resolve_document_type e m name i =
     (let documentType = get_member e m name;
          documentType = (if falsy documentType
                          then match_normalized (normalize name) (entries m) documentType
                          else documentType)
      in if falsy documentType then Value (JStr (js ''document_'' @ digits i))
         else documentType)"

text \<open>Conversion of \<^verbatim>\<open>documentType\<close> to a string, and what a response carries for it.\<close>

definition to_string :: "env \<Rightarrow> jsvalue \<Rightarrow> jsstring option" where
  "to_string e v =
     (case v of
        Undefined \<Rightarrow> Some (js ''undefined'')
      | Builtin name \<Rightarrow> Some (builtin_text e name)
      | Value j \<Rightarrow> json_text j)"

definition stringify :: "env \<Rightarrow> jsvalue \<Rightarrow> json option" where
  "stringify e v =
     (case v of
        Undefined \<Rightarrow> None
      | Builtin name \<Rightarrow> builtin_json e name
      | Value j \<Rightarrow> Some (written j))"

section \<open>The intake middleware\<close>

text \<open>The types the file filter of the handler's file lets through.\<close>

definition allowedTypes :: "jsstring list" where
  "allowedTypes = [js ''image/jpeg'', js ''image/png'', js ''application/pdf'']"

text \<open>
  Modelled from the spec: the upload middleware is the library \<^verbatim>\<open>multer\<close>, whose code
  is not among the repository's files; the handler's file holds its configuration only.
  The specification speaks of an earlier intake boundary that rejects oversized payloads
  at 10 MB. The model follows the configuration (files are taken from the field
  \<^verbatim>\<open>documents\<close>, at most 10 of them; the file filter accepts the three declared MIME
  types; a file may hold at most \<^verbatim>\<open>10 * 1024 * 1024\<close> bytes) and the way the library
  reads a request: the parts are taken in order, a part without a filename is drained and
  dropped before the filter sees it, and the first part that breaks a rule ends the
  middleware with an error, which \<^verbatim>\<open>runMiddleware\<close> turns into a rejected promise.
  The files handed over are the parts with a filename.
\<close>

fun multer_scan :: "nat \<Rightarrow> upfile list \<Rightarrow> jsstring + upfile list" where
  "multer_scan left [] = Inr []"
| "multer_scan left (part # rest) =
     (if originalname part = [] then multer_scan left rest
      else if fieldname part \<noteq> js ''documents'' \<or> left = 0
        then Inl (js ''Unexpected field'')
      else if mimetype part \<notin> set allowedTypes
        then Inl (js ''Invalid file type. Only JPEG, PNG, and PDF files are allowed.'')
      else if size_bytes part > 10 * 1024 * 1024 then Inl (js ''File too large'')
      else (case multer_scan (left - 1) rest of
              Inl message \<Rightarrow> Inl message
            | Inr files \<Rightarrow> Inr (part # files)))"

text \<open>\<^verbatim>\<open>upload.array("documents", 10)\<close>, as the handler calls it.\<close>

definition multer_array :: "upfile list \<Rightarrow> jsstring + upfile list" where
  "multer_array sent = multer_scan 10 sent"

section \<open>Processing one file\<close>

record batch_state =
  world_of :: world
  uploadedDocuments :: "json list"
  errors :: "jsstring list"

text \<open>The state in which the loop starts: both lists are empty.\<close>

definition start_state :: "world \<Rightarrow> batch_state" where
  "start_state w = \<lparr>world_of = w, uploadedDocuments = [], errors = []\<rparr>"

text \<open>
  The path of the blob. The template literal converts \<^verbatim>\<open>documentType\<close> to a string,
  which throws for a value that converts to no primitive (\<open>None\<close>).
\<close>

definition file_path :: "env \<Rightarrow> jsstring \<Rightarrow> jsvalue \<Rightarrow> nat \<Rightarrow> jsstring \<Rightarrow> jsstring option" where
  "file_path e bid documentType timestamp name =
     (let fileExtension = last (split_on 46 name)
      in case to_string e documentType of
           None \<Rightarrow> None
         | Some t \<Rightarrow>
             (let fileName = t @ js ''_'' @ digits timestamp @ js ''.'' @ fileExtension
              in Some (js ''provider-documents/'' @ bid @ js ''/'' @ fileName)))"

text \<open>
  The resolution and the \<^verbatim>\<open>try\<close> block of the loop for the file at position \<open>i\<close>,
  for a mapping that is not \<^verbatim>\<open>null\<close>. The size test
  \<^verbatim>\<open>file.size / (1024 * 1024) > 5\<close> and the template literal of the file name throw
  inside the \<^verbatim>\<open>try\<close>; its \<^verbatim>\<open>catch\<close> pushes the message and the loop goes on.
  The line that logs the resolved type, between the resolution and the \<^verbatim>\<open>try\<close>, is
  in \<open>process_files\<close>.
\<close>

definition process_file ::
  "env \<Rightarrow> jsstring \<Rightarrow> mappings \<Rightarrow> nat \<Rightarrow> upfile \<Rightarrow> batch_state \<Rightarrow> batch_state" where
  "process_file e bid m i file st =
     (let documentType = resolve_document_type e m (originalname file) i
      in if size_bytes file > 5 * (1024 * 1024)
         then st\<lparr>errors := errors st @
                  [js ''Failed to process '' @ originalname file @ js '': '' @
                   js ''File size ('' @ toFixed2_MB (size_bytes file) @
                   js '' MB) exceeds the 5MB limit'']\<rparr>
         else
           (case file_path e bid documentType (now e i) (originalname file) of
              None \<Rightarrow>
                st\<lparr>errors := errors st @
                     [js ''Failed to process '' @ originalname file @ js '': '' @
                      not_primitive_text e]\<rparr>
            | Some filePath \<Rightarrow>
                (case storage_upload e i filePath (mimetype file) (world_of st) of
                   (Inl message, w1) \<Rightarrow>
                     (let errorMessage =
                            (if includes_str message (js ''maximum allowed size'')
                             then js ''File size ('' @ toFixed2_MB (size_bytes file) @
                                  js '' MB) is too large. Please upload a file smaller than 5MB.''
                             else message)
                      in st\<lparr>world_of := w1,
                            errors := errors st @
                              [js ''Failed to upload '' @ originalname file @ js '': '' @
                               errorMessage]\<rparr>)
                 | (Inr path, w1) \<Rightarrow>
                     (let publicUrl = public_url e path;
                          documentData =
                            \<lparr>doc_id = [], business_id = bid, document_type = documentType,
                             document_name = originalname file, file_url = publicUrl,
                             file_size_bytes = size_bytes file,
                             verification_status = js ''pending'', uploaded_at = []\<rparr>
                      in case insert_document e i documentData w1 of
                           (Inl message, w2) \<Rightarrow>
                             st\<lparr>world_of := storage_remove e i path w2,
                                errors := errors st @
                                  [js ''Failed to save record for '' @ originalname file @
                                   js '': '' @ message]\<rparr>
                         | (Inr dbRecord, w2) \<Rightarrow>
                             st\<lparr>world_of := w2,
                                uploadedDocuments := uploadedDocuments st @
                                  [JObj ([(js ''id'', JStr (doc_id dbRecord))]
                                         @ (case stringify e documentType of
                                              None \<Rightarrow> []
                                            | Some j \<Rightarrow> [(js ''documentType'', j)])
                                         @ [(js ''fileName'', JStr (originalname file)),
                                            (js ''url'', JStr publicUrl),
                                            (js ''status'', JStr (js ''uploaded'')),
                                            (js ''uploadedAt'',
                                             JStr (uploaded_at dbRecord))])]\<rparr>))))"

text \<open>
  \<^verbatim>\<open>for (let i = 0; i < files.length; i++)\<close>, from position \<open>i\<close> on. Before the
  \<^verbatim>\<open>try\<close> block the resolved type is logged with a template literal, which converts
  it to a string. For a value that converts to no primitive this throws outside the
  \<^verbatim>\<open>try\<close>: the loop ends with the TypeError (on the left, with the remote services
  as the earlier files left them), which the outer \<^verbatim>\<open>catch\<close> of the handler answers.
\<close>

fun process_files ::
  "env \<Rightarrow> jsstring \<Rightarrow> mappings \<Rightarrow> nat \<Rightarrow> upfile list \<Rightarrow> batch_state
     \<Rightarrow> jsstring \<times> world + batch_state" where
  "process_files e bid m i [] st = Inr st"
| "process_files e bid m i (file # rest) st =
     (case to_string e (resolve_document_type e m (originalname file) i) of
        None \<Rightarrow> Inl (not_primitive_text e, world_of st)
      | Some logged \<Rightarrow>
          process_files e bid m (Suc i) rest (process_file e bid m i file st))"

text \<open>
  The whole loop. When the mapping text parsed to \<^verbatim>\<open>null\<close>, the first pass throws at
  \<^verbatim>\<open>mappings[file.originalname]\<close>, also before the \<^verbatim>\<open>try\<close>.
\<close>

definition run_loop ::
  "env \<Rightarrow> jsstring \<Rightarrow> mappings option \<Rightarrow> upfile list \<Rightarrow> batch_state
     \<Rightarrow> jsstring \<times> world + batch_state" where
  "run_loop e bid parsed files st =
     (case parsed of
        Some m \<Rightarrow> process_files e bid m 0 files st
      | None \<Rightarrow>
          (case files of
             [] \<Rightarrow> Inr st
           | file # rest \<Rightarrow> Inl (null_read_text e (originalname file), world_of st)))"

section \<open>After the loop\<close>

text \<open>The update of the setup step, made when the existence query returns no row.\<close>

definition advance_setup_step ::
  "env \<Rightarrow> jsstring \<Rightarrow> profile_row \<Rightarrow> json list \<Rightarrow> world \<Rightarrow> world" where
  "advance_setup_step e bid businessProfile uploaded w =
     (if length uploaded > 0
      then (case select_existing e bid w of
              (existingDocs, w1) \<Rightarrow>
                if (case existingDocs of None \<Rightarrow> True | Some rows \<Rightarrow> length rows = 0)
                then update_setup_step e bid
                       (max (if profile_verification_status businessProfile = js ''pending''
                             then 2 else 1) 2) w1
                else w1)
      else w)"

subsection \<open>Requirement evaluator\<close>

definition required_types :: "jsstring \<Rightarrow> jsstring list" where
  "required_types bt =
     [js ''drivers_license'', js ''proof_of_address'', js ''professional_license'',
      js ''professional_certificate'']
     @ (if bt \<noteq> js ''sole_proprietorship'' then [js ''business_license''] else [])"

definition uploaded_types :: "jsstring list option \<Rightarrow> jsstring list" where
  "uploaded_types allDocs = (case allDocs of None \<Rightarrow> [] | Some ts \<Rightarrow> ts)"

definition all_required_uploaded :: "jsstring list \<Rightarrow> jsstring list \<Rightarrow> bool" where
  "all_required_uploaded requiredTypes uploadedTypes =
     list_all (\<lambda>type. type \<in> set uploadedTypes) requiredTypes"

section \<open>The handler\<close>

definition document_json :: "jsstring document_row \<Rightarrow> json" where
  "document_json d =
     JObj [(js ''id'', JStr (doc_id d)), (js ''business_id'', JStr (business_id d)),
           (js ''document_type'', JStr (document_type d)),
           (js ''document_name'', JStr (document_name d)),
           (js ''file_url'', JStr (file_url d)),
           (js ''file_size_bytes'', JNum (digits (file_size_bytes d))),
           (js ''verification_status'', JStr (verification_status d)),
           (js ''uploaded_at'', JStr (uploaded_at d))]"

definition error_body :: "string \<Rightarrow> json" where
  "error_body message = JObj [(js ''error'', JStr (js message))]"

text \<open>The answer of the outer \<^verbatim>\<open>catch\<close>.\<close>

definition internal_error :: "jsstring \<Rightarrow> response" where
  "internal_error message =
     \<lparr>status = 500,
      body = JObj [(js ''error'', JStr (js ''Internal server error'')),
                   (js ''details'', JStr message)]\<rparr>"

text \<open>
  Everything up to the loop: the method, the test route, the middleware, the required
  fields, the mapping and the two lookups. A result on the left is the response that ends
  the request; on the right the parsed mapping is \<open>None\<close> when the text parsed to
  \<^verbatim>\<open>null\<close>.
\<close>

definition preconditions ::
  "env \<Rightarrow> request \<Rightarrow> world
     \<Rightarrow> (response + upfile list \<times> jsstring \<times> mappings option \<times> profile_row) \<times> world" where
  "preconditions e req w =
     (if http_method req \<noteq> js ''POST''
      then (Inl \<lparr>status = 405, body = error_body ''Method not allowed''\<rparr>, w)
      else if (case url req of None \<Rightarrow> False | Some u \<Rightarrow> includes_str u (js ''test''))
      then (Inl \<lparr>status = 200,
                 body = JObj [(js ''message'', JStr (js ''API is working'')),
                              (js ''timestamp'', JStr (now_iso e))]\<rparr>, w)
      else
        (case multer_array (sent_files req) of
           Inl message \<Rightarrow> (Inl (internal_error message), w)
         | Inr files \<Rightarrow>
             if (case userId req of None \<Rightarrow> True | Some u \<Rightarrow> u = [])
                \<or> (case businessId req of None \<Rightarrow> True | Some b \<Rightarrow> b = [])
             then (Inl \<lparr>status = 400, body = error_body ''Missing userId or businessId''\<rparr>, w)
             else if length files = 0
             then (Inl \<lparr>status = 400, body = error_body ''No files uploaded''\<rparr>, w)
             else
               (case documentMappings req of
                  Unparsable \<Rightarrow>
                    (Inl \<lparr>status = 400, body = error_body ''Invalid document mappings''\<rparr>, w)
                | field \<Rightarrow>
                    (let parsed = (case field of
                                     Parsed m \<Rightarrow> Some m
                                   | ParsedNull \<Rightarrow> None
                                   | _ \<Rightarrow> Some (MObject []));
                         uid = (case userId req of Some u \<Rightarrow> u | None \<Rightarrow> []);
                         bid = (case businessId req of Some b \<Rightarrow> b | None \<Rightarrow> [])
                     in case select_provider e uid bid w of
                          (None, w1) \<Rightarrow>
                            (Inl \<lparr>status = 404,
                                  body = error_body
                                    ''Business profile not found or not owned by user''\<rparr>, w1)
                        | (Some providerRecord, w1) \<Rightarrow>
                            (case select_profile e bid w1 of
                               (None, w2) \<Rightarrow>
                                 (Inl \<lparr>status = 404,
                                       body = error_body ''Business profile not found''\<rparr>, w2)
                             | (Some businessProfile, w2) \<Rightarrow>
                                 (Inr (files, bid, parsed, businessProfile), w2))))))"

text \<open>
  The loop, the work after it and the answer. A loop that ended with a TypeError is
  answered by the outer \<^verbatim>\<open>catch\<close>. \<^verbatim>\<open>JSON.stringify\<close> leaves out a property
  whose value is \<^verbatim>\<open>undefined\<close>, which is what \<^verbatim>\<open>errors\<close> is given when no file failed.
\<close>

definition run_batch ::
  "env \<Rightarrow> upfile list \<Rightarrow> jsstring \<Rightarrow> mappings option \<Rightarrow> profile_row \<Rightarrow> world
     \<Rightarrow> response \<times> world" where
  "run_batch e files bid parsed businessProfile w =
     (case run_loop e bid parsed files (start_state w) of
        Inl (message, w1) \<Rightarrow> (internal_error message, w1)
      | Inr st \<Rightarrow>
          (let w3 = advance_setup_step e bid businessProfile (uploadedDocuments st)
                      (world_of st)
           in case select_qualifying e bid w3 of
                (allDocs, w4) \<Rightarrow>
                  (let uploadedTypes = uploaded_types allDocs;
                       requiredTypes = required_types (business_type businessProfile);
                       allRequiredUploaded = all_required_uploaded requiredTypes uploadedTypes
                   in case select_final e bid w4 of
                        (finalCheck, w5) \<Rightarrow>
                          (\<lparr>status = 200,
                            body = JObj
                              ([(js ''success'', JBool True),
                                (js ''uploaded'', JArr (uploadedDocuments st))]
                               @ (if length (errors st) > 0
                                  then [(js ''errors'', JArr (map JStr (errors st)))] else [])
                               @ [(js ''allRequiredUploaded'', JBool allRequiredUploaded),
                                  (js ''requiredDocuments'', JArr (map JStr requiredTypes)),
                                  (js ''uploadedDocuments'', JArr (map JStr uploadedTypes)),
                                  (js ''debug'',
                                   JObj [(js ''finalDatabaseCheck'',
                                          (case finalCheck of
                                             None \<Rightarrow> JNull
                                           | Some rows \<Rightarrow> JArr (map document_json rows))),
                                         (js ''businessId'', JStr bid),
                                         (js ''uploadedCount'',
                                          JNum (digits (length (uploadedDocuments st))))])])\<rparr>,
                           w5))))"

definition handler :: "env \<Rightarrow> request \<Rightarrow> world \<Rightarrow> response \<times> world" where
  "handler e req w =
     (case preconditions e req w of
        (Inl res, w') \<Rightarrow> (res, w')
      | (Inr (files, bid, parsed, businessProfile), w') \<Rightarrow>
          run_batch e files bid parsed businessProfile w')"

section \<open>Derived notions and concrete inputs\<close>

text \<open>The locator the loop builds for the file at position \<open>i\<close>.\<close>

definition locator :: "env \<Rightarrow> jsstring \<Rightarrow> mappings \<Rightarrow> nat \<Rightarrow> upfile \<Rightarrow> jsstring option" where
  "locator e bid m i file =
     file_path e bid (resolve_document_type e m (originalname file) i) (now e i)
       (originalname file)"

text \<open>The messages with which the middleware ends.\<close>

definition intake_messages :: "jsstring set" where
  "intake_messages =
     {js ''Unexpected field'',
      js ''Invalid file type. Only JPEG, PNG, and PDF files are allowed.'',
      js ''File too large''}"

text \<open>A name that the mapping does not hold itself and finds on its prototype chain.\<close>

definition inherits :: "env \<Rightarrow> mappings \<Rightarrow> jsstring \<Rightarrow> bool" where
  "inherits e m name = (own_member m name = None \<and> name \<in> set (inherited_names e m))"

text \<open>The required set as the specification words it.\<close>

definition spec_required_set :: "jsstring \<Rightarrow> jsstring set" where
  "spec_required_set bt =
     (if bt = js ''sole_proprietorship''
      then {js ''drivers_license'', js ''proof_of_address'', js ''professional_license'',
            js ''professional_certificate''}
      else {js ''drivers_license'', js ''proof_of_address'', js ''professional_license'',
            js ''professional_certificate''} \<union> {js ''business_license''})"

text \<open>
  The fields of a success entry. The field \<open>documentType\<close> is missing from an entry when
  nothing is written for the value (a built-in function); a complete entry has all six.
\<close>

definition is_string :: "json \<Rightarrow> bool" where
  "is_string j = (case j of JStr s \<Rightarrow> True | _ \<Rightarrow> False)"

definition success_entry :: "json \<Rightarrow> bool" where
  "success_entry j =
     (case j of
        JObj kvs \<Rightarrow>
          (map fst kvs = [js ''id'', js ''documentType'', js ''fileName'', js ''url'',
                          js ''status'', js ''uploadedAt'']
           \<or> map fst kvs = [js ''id'', js ''fileName'', js ''url'', js ''status'',
                             js ''uploadedAt''])
          \<and> list_all (\<lambda>(k, v). k = js ''documentType'' \<or> is_string v) kvs
      | _ \<Rightarrow> False)"

definition complete_entry :: "json \<Rightarrow> bool" where
  "complete_entry j =
     (case j of
        JObj kvs \<Rightarrow>
          map fst kvs = [js ''id'', js ''documentType'', js ''fileName'', js ''url'',
                         js ''status'', js ''uploadedAt'']
      | _ \<Rightarrow> False)"

text \<open>The field names of an object, and the value of a field.\<close>

definition keys :: "json \<Rightarrow> jsstring list" where
  "keys j = (case j of JObj kvs \<Rightarrow> map fst kvs | _ \<Rightarrow> [])"

definition get_field :: "json \<Rightarrow> string \<Rightarrow> json option" where
  "get_field j name = (case j of JObj kvs \<Rightarrow> map_of kvs (js name) | _ \<Rightarrow> None)"

text \<open>
  For the state \<open>st\<close> in which the loop ended: the world in which the requirement read
  is made, the labels that read gives and the rows of the final check.
\<close>

definition evaluated_world :: "env \<Rightarrow> jsstring \<Rightarrow> profile_row \<Rightarrow> batch_state \<Rightarrow> world" where
  "evaluated_world e bid bp st =
     advance_setup_step e bid bp (uploadedDocuments st) (world_of st)"

definition qualifying_labels ::
  "env \<Rightarrow> jsstring \<Rightarrow> profile_row \<Rightarrow> batch_state \<Rightarrow> jsstring list" where
  "qualifying_labels e bid bp st =
     uploaded_types (fst (select_qualifying e bid (evaluated_world e bid bp st)))"

definition final_check ::
  "env \<Rightarrow> jsstring \<Rightarrow> profile_row \<Rightarrow> batch_state \<Rightarrow> jsstring document_row list option" where
  "final_check e bid bp st =
     fst (select_final e bid (snd (select_qualifying e bid (evaluated_world e bid bp st))))"

text \<open>
  A service that never fails, with a clock that advances by one millisecond per file, on a
  runtime that prints built-in functions the way V8 does. The example mappings are
  objects, for which \<open>prototype_names\<close> is not consulted.
\<close>

definition example_env :: env where
  "example_env =
     \<lparr>now = (\<lambda>i. 1700000000000 + i),
      now_iso = js ''2023-11-14T22:13:20.000Z'',
      upload_error = (\<lambda>i. None),
      stored_path = (\<lambda>path. path),
      public_url = (\<lambda>path. js ''https://store.example/'' @ path),
      insert_error = (\<lambda>i. None),
      new_id = (\<lambda>i. js ''doc-'' @ digits i),
      new_uploaded_at = (\<lambda>i. js ''2023-11-14T22:13:21.000Z''),
      column_text = (\<lambda>v. []),
      remove_fails = (\<lambda>i. False),
      provider_select_fails = False,
      profile_select_fails = False,
      existing_select_fails = False,
      update_fails = False,
      qualifying_select_fails = False,
      final_select_fails = False,
      prototype_names = (\<lambda>m. []),
      builtin_text =
        (\<lambda>name. if name = js ''__proto__'' then js ''[object Object]''
                else if name = js ''constructor''
                  then js ''function Object() { [native code] }''
                else js ''function '' @ name @ js ''() { [native code] }''),
      builtin_json = (\<lambda>name. if name = js ''__proto__'' then Some (JObj []) else None),
      null_read_text =
        (\<lambda>name. js ''Cannot read properties of null (reading '' @ [39] @ name @ [39, 41]),
      not_primitive_text = js ''Cannot convert object to primitive value''\<rparr>"

text \<open>The same with a clock that stands still, with inserts that fail, with a failing
  read of the qualifying rows.\<close>

definition frozen_clock_env :: env where
  "frozen_clock_env = example_env\<lparr>now := (\<lambda>i. 1700000000000)\<rparr>"

definition failing_insert_env :: env where
  "failing_insert_env =
     example_env\<lparr>insert_error := (\<lambda>i. Some (js ''invalid input value for enum'')),
                 remove_fails := (\<lambda>i. True)\<rparr>"

definition failing_read_env :: env where
  "failing_read_env = example_env\<lparr>qualifying_select_fails := True\<rparr>"

text \<open>A business with an owner, a profile at setup step 1 and no document yet.\<close>

definition example_profile :: profile_row where
  "example_profile =
     \<lparr>profile_id = js ''b1'', business_type = js ''llc'',
      profile_verification_status = js ''pending'', setup_step = 1,
      updated_at = js ''2023-11-01T00:00:00.000Z''\<rparr>"

definition example_world :: world where
  "example_world =
     \<lparr>providers = [\<lparr>user_id = js ''u1'', provider_business_id = js ''b1'',
                    provider_role = js ''owner''\<rparr>],
      profiles = [example_profile],
      documents = [],
      blobs = [],
      calls = []\<rparr>"

definition example_mappings :: mappings where
  "example_mappings =
     MObject [(js ''a.pdf'', JStr (js ''drivers_license'')),
              (js ''b.pdf'', JStr (js ''drivers_license''))]"


definition example_file :: "string \<Rightarrow> string \<Rightarrow> nat \<Rightarrow> upfile" where
  "example_file name type bytes =
     \<lparr>fieldname = js ''documents'', originalname = js name, mimetype = js type,
      size_bytes = bytes\<rparr>"

definition example_request :: "upfile list \<Rightarrow> request" where
  "example_request files =
     \<lparr>http_method = js ''POST'',
      url = Some (js ''/api/onboarding/upload-documents''),
      sent_files = files,
      userId = Some (js ''u1''),
      businessId = Some (js ''b1''),
      documentMappings = Parsed example_mappings\<rparr>"

definition example_state :: batch_state where
  "example_state = \<lparr>world_of = example_world, uploadedDocuments = [], errors = []\<rparr>"

text \<open>A stored document of the example business, and the business with all five
  required documents stored and pending.\<close>

definition example_document :: "string \<Rightarrow> string \<Rightarrow> jsstring document_row" where
  "example_document type st =
     \<lparr>doc_id = js type, business_id = js ''b1'', document_type = js type,
      document_name = js ''scan.pdf'', file_url = js ''https://store.example/scan.pdf'',
      file_size_bytes = 1000, verification_status = js st,
      uploaded_at = js ''2023-11-14T22:13:21.000Z''\<rparr>"

definition complete_world :: world where
  "complete_world =
     example_world\<lparr>documents :=
       [example_document ''drivers_license'' ''pending'',
        example_document ''proof_of_address'' ''pending'',
        example_document ''professional_license'' ''pending'',
        example_document ''professional_certificate'' ''pending'',
        example_document ''business_license'' ''pending'']\<rparr>"

section \<open>Properties of the normalizer\<close>

lemma is_space_32: "is_space 32" by (simp add: is_space_def)

lemma rtrim_append:
  "rtrim (xs @ ys) = (if \<forall>y\<in>set ys. is_space y then rtrim xs else xs @ rtrim ys)"
  by (simp add: rtrim_def dropWhile_append)

lemma rtrim_nonspace: "\<forall>y\<in>set ys. \<not> is_space y \<Longrightarrow> rtrim ys = ys"
proof (induction ys rule: rev_induct)
  case Nil then show ?case by (simp add: rtrim_def)
next
  case (snoc x xs) then show ?case by (simp add: rtrim_def)
qed

lemma collapse_nonspace_append:
  "\<forall>y\<in>set w. \<not> is_space y \<Longrightarrow> collapse_spaces (w @ r) = w @ collapse_spaces r"
  by (induction w) auto

lemma tokens_dropWhile: "tokens (dropWhile is_space t) = tokens t"
  by (induction t) auto

lemma collapse_hd:
  "t \<noteq> [] \<Longrightarrow> \<not> is_space (hd t) \<Longrightarrow> collapse_spaces t \<noteq> [] \<and> hd (collapse_spaces t) = hd t"
  by (cases t) auto

lemma dropWhile_hd: "dropWhile P t \<noteq> [] \<Longrightarrow> \<not> P (hd (dropWhile P t))"
  by (simp add: hd_dropWhile)

lemma ltrim_collapse:
  "dropWhile is_space (collapse_spaces t) = collapse_spaces (dropWhile is_space t)"
proof (cases t)
  case Nil then show ?thesis by simp
next
  case (Cons c cs)
  show ?thesis
  proof (cases "is_space c")
    case False with Cons show ?thesis by simp
  next
    case True
    let ?u = "dropWhile is_space cs"
    have "dropWhile is_space (collapse_spaces ?u) = collapse_spaces ?u"
    proof (cases "?u = []")
      case True then show ?thesis by (simp only: True collapse_spaces.simps dropWhile.simps)
    next
      case False
      then have "\<not> is_space (hd ?u)" by (rule dropWhile_hd)
      with False have "collapse_spaces ?u \<noteq> [] \<and> hd (collapse_spaces ?u) = hd ?u"
        by (simp add: collapse_hd)
      with \<open>\<not> is_space (hd ?u)\<close> show ?thesis
        by (cases "collapse_spaces ?u") auto
    qed
    with True Cons show ?thesis by (simp add: is_space_32)
  qed
qed

lemma rtrim_collapse_tokens:
  "t = [] \<or> \<not> is_space (hd t) \<Longrightarrow> rtrim (collapse_spaces t) = unwords (tokens t)"
proof (induction t rule: length_induct)
  case (1 t)
  show ?case
  proof (cases t)
    case Nil then show ?thesis by (simp add: rtrim_def)
  next
    case (Cons c cs)
    with 1(2) have nsp: "\<not> is_space c" by simp
    let ?w = "c # takeWhile (\<lambda>x. \<not> is_space x) cs"
    let ?rest = "dropWhile (\<lambda>x. \<not> is_space x) cs"
    have t: "t = ?w @ ?rest" using Cons by simp
    have w: "\<forall>y\<in>set ?w. \<not> is_space y" using nsp by (auto dest: set_takeWhileD)
    have col: "collapse_spaces t = ?w @ collapse_spaces ?rest"
      by (subst t) (rule collapse_nonspace_append [OF w])
    have tok: "tokens t = ?w # tokens ?rest" using Cons nsp by simp
    show ?thesis
    proof (cases ?rest)
      case Nil
      with col tok w show ?thesis by (simp add: rtrim_nonspace del: set_simps)
    next
      case (Cons s r)
      have "\<not> \<not> is_space (hd ?rest)" using Cons dropWhile_hd [of "\<lambda>x. \<not> is_space x" cs] by simp
      with Cons have sp: "is_space s" by simp
      let ?t' = "dropWhile is_space r"
      have col': "collapse_spaces ?rest = 32 # collapse_spaces ?t'" using Cons sp by simp
      have tok': "tokens ?rest = tokens ?t'" using Cons sp by (simp add: tokens_dropWhile)
      have len: "length ?t' < length t"
      proof -
        have "length ?t' \<le> length r" by (rule length_dropWhile_le)
        also have "\<dots> < length ?rest" using Cons by simp
        also have "\<dots> \<le> length cs" by (rule length_dropWhile_le)
        finally show ?thesis using \<open>t = c # cs\<close> by simp
      qed
      have hd': "?t' = [] \<or> \<not> is_space (hd ?t')" using dropWhile_hd [of is_space r] by blast
      have IH: "rtrim (collapse_spaces ?t') = unwords (tokens ?t')"
        using 1(1) len hd' by blast
      show ?thesis
      proof (cases "?t' = []")
        case True
        have "collapse_spaces t = ?w @ [32]"
          by (simp only: col col' True collapse_spaces.simps)
        moreover have "rtrim (?w @ [32]) = ?w"
          using rtrim_append [of ?w "[32]"] rtrim_nonspace [OF w] by (simp add: is_space_32)
        ultimately have "rtrim (collapse_spaces t) = ?w" by simp
        moreover have "tokens t = [?w]"
          by (simp only: tok tok' True tokens.simps)
        ultimately show ?thesis by (simp only: unwords.simps)
      next
        case False
        with hd' have h: "\<not> is_space (hd ?t')" by blast
        from False obtain d ds where dd: "?t' = d # ds" by (cases ?t') auto
        with h have "\<not> is_space d" by simp
        have ne: "\<not> (\<forall>y\<in>set (32 # collapse_spaces ?t'). is_space y)"
          using dd \<open>\<not> is_space d\<close> by auto
        have a: "rtrim (collapse_spaces t) = ?w @ rtrim (32 # collapse_spaces ?t')"
          using ne by (simp only: col col' rtrim_append if_False)
        have b: "rtrim (32 # collapse_spaces ?t') = 32 # rtrim (collapse_spaces ?t')"
          using rtrim_append [of "[32]" "collapse_spaces ?t'"] dd \<open>\<not> is_space d\<close> by auto
        have "tokens ?t' \<noteq> []" using dd \<open>\<not> is_space d\<close> by simp
        then have c: "?w @ 32 # unwords (tokens ?t') = unwords (?w # tokens ?t')"
          by (cases "tokens ?t'") auto
        show ?thesis by (simp only: a b IH c tok tok')
      qed
    qed
  qed
qed

lemma trim_collapse_tokens: "trim (collapse_spaces t) = unwords (tokens t)"
proof -
  have "trim (collapse_spaces t) = rtrim (collapse_spaces (dropWhile is_space t))"
    by (simp add: trim_def ltrim_collapse)
  also have "\<dots> = unwords (tokens (dropWhile is_space t))"
    using dropWhile_hd [of is_space t] by (intro rtrim_collapse_tokens) blast
  finally show ?thesis by (simp add: tokens_dropWhile)
qed

lemma replace_special_kept: "c \<in> set (replace_special s) \<Longrightarrow> kept c"
  by (auto simp: replace_special_def kept_def is_space_32)

lemma replace_special_id: "\<forall>c\<in>set t. kept c \<Longrightarrow> replace_special t = t"
  by (induction t) (auto simp: replace_special_def kept_def)

lemma tokens_sound:
  "w \<in> set (tokens t) \<Longrightarrow> w \<noteq> [] \<and> (\<forall>c\<in>set w. \<not> is_space c) \<and> set w \<subseteq> set t"
proof (induction t rule: tokens.induct)
  case 1 then show ?case by simp
next
  case (2 c cs)
  show ?case
  proof (cases "is_space c")
    case True
    with 2 show ?thesis by auto
  next
    case False
    from 2(3) False have "w = c # takeWhile (\<lambda>x. \<not> is_space x) cs
        \<or> w \<in> set (tokens (dropWhile (\<lambda>x. \<not> is_space x) cs))" by simp
    then show ?thesis
    proof
      assume "w = c # takeWhile (\<lambda>x. \<not> is_space x) cs"
      then show ?thesis using False by (auto dest: set_takeWhileD)
    next
      assume "w \<in> set (tokens (dropWhile (\<lambda>x. \<not> is_space x) cs))"
      with 2(2) False have "w \<noteq> [] \<and> (\<forall>c\<in>set w. \<not> is_space c)
          \<and> set w \<subseteq> set (dropWhile (\<lambda>x. \<not> is_space x) cs)" by simp
      then show ?thesis by (auto dest: set_dropWhileD)
    qed
  qed
qed

lemma tokens_word_append:
  assumes "w \<noteq> []" "\<forall>c\<in>set w. \<not> is_space c" "r = [] \<or> is_space (hd r)"
  shows "tokens (w @ r) = w # tokens r"
proof -
  from assms(1) obtain c cs where w: "w = c # cs" by (cases w) auto
  have tw: "takeWhile (\<lambda>x. \<not> is_space x) (cs @ r) = cs"
    using assms(2,3) w by (cases r) (auto simp: takeWhile_append)
  have dw: "dropWhile (\<lambda>x. \<not> is_space x) (cs @ r) = r"
    using assms(2,3) w by (cases r) (auto simp: dropWhile_append)
  show ?thesis using w assms(2) tw dw by simp
qed

lemma tokens_unwords:
  "\<forall>w\<in>set ws. w \<noteq> [] \<and> (\<forall>c\<in>set w. \<not> is_space c) \<Longrightarrow> tokens (unwords ws) = ws"
proof (induction ws rule: unwords.induct)
  case 1 then show ?case by simp
next
  case (2 w)
  then show ?case using tokens_word_append [of w "[]"] by simp
next
  case (3 w v ws)
  then have "tokens (unwords (v # ws)) = v # ws" by simp
  moreover have "tokens (w @ 32 # unwords (v # ws)) = w # tokens (32 # unwords (v # ws))"
    using 3(2) by (intro tokens_word_append) (auto simp: is_space_32)
  ultimately show ?case by (simp add: is_space_32)
qed

lemma set_unwords: "c \<in> set (unwords ws) \<Longrightarrow> c = 32 \<or> (\<exists>w\<in>set ws. c \<in> set w)"
  by (induction ws rule: unwords.induct) auto

lemma normalize_unwords: "normalize s = unwords (tokens (replace_special s))"
  by (simp add: normalize_def trim_collapse_tokens)

lemma kept_32: "kept 32" by (simp add: kept_def is_space_32)

text \<open>
  Claim C6 as the specification words it, read on the input \<open>a_b\<close>: the underscore is
  neither alphanumeric nor white space nor a dot nor a hyphen, so it would become a space.
  The class \<^verbatim>\<open>\w\<close> of the handler holds the underscore, and it is kept.
\<close>

theorem normalize_underscore_counterexample:
  "normalize (js ''a_b'') = js ''a_b'' \<and> spec_normalize (js ''a_b'') = js ''a b''"
  by (simp add: normalize_def spec_normalize_def trim_def rtrim_def replace_special_def
      spec_replace_def is_word_def is_alnum_def is_space_def js_def)

text \<open>
  Claim C6, amended: the first step keeps the ASCII letters, the ASCII digits, the
  underscore, white space, the dot and the hyphen and puts a space in the place of every
  other character, position by position; the result of the normalizer is the list of the
  maximal runs without white space of that string, joined by single spaces (every run of
  white space is one space, none is left at either end). The normalizer is a total
  function of its argument alone.
\<close>

theorem normalize_characterisation:
  "length (replace_special s) = length s
   \<and> (\<forall>i<length s. replace_special s ! i =
        (if is_word (s ! i) \<or> is_space (s ! i) \<or> s ! i = 46 \<or> s ! i = 45 then s ! i else 32))
   \<and> normalize s = unwords (tokens (replace_special s))"
  by (simp add: replace_special_def normalize_def trim_collapse_tokens)

theorem normalize_characterisation_witness:
  "length (replace_special (js '' a_b  (1).pdf'')) = length (js '' a_b  (1).pdf'')
   \<and> replace_special (js '' a_b  (1).pdf'') = js '' a_b   1 .pdf''
   \<and> tokens (js '' a_b   1 .pdf'') = [js ''a_b'', js ''1'', js ''.pdf'']
   \<and> normalize (js '' a_b  (1).pdf'') = js ''a_b 1 .pdf''"
  using normalize_characterisation [of "js '' a_b  (1).pdf''"]
  by (simp add: replace_special_def is_word_def is_space_def js_def)

text \<open>
  Claim C9: for every filename, normalizing twice is normalizing once.
\<close>

theorem normalize_idempotent: "normalize (normalize s) = normalize s"
proof -
  let ?ws = "tokens (replace_special s)"
  have ws: "\<forall>w\<in>set ?ws. w \<noteq> [] \<and> (\<forall>c\<in>set w. \<not> is_space c)"
    using tokens_sound by blast
  have "\<forall>c\<in>set (unwords ?ws). kept c"
  proof
    fix c assume "c \<in> set (unwords ?ws)"
    then have "c = 32 \<or> (\<exists>w\<in>set ?ws. c \<in> set w)" by (rule set_unwords)
    then show "kept c"
    proof
      assume "c = 32" then show ?thesis by (simp add: kept_32)
    next
      assume "\<exists>w\<in>set ?ws. c \<in> set w"
      then obtain w where "w \<in> set ?ws" "c \<in> set w" by blast
      then have "c \<in> set (replace_special s)" using tokens_sound by blast
      then show ?thesis by (rule replace_special_kept)
    qed
  qed
  then have "replace_special (unwords ?ws) = unwords ?ws" by (rule replace_special_id)
  then have "normalize (unwords ?ws) = unwords (tokens (unwords ?ws))"
    by (simp add: normalize_unwords)
  also have "\<dots> = unwords ?ws" using ws by (simp add: tokens_unwords)
  finally show ?thesis by (simp add: normalize_unwords)
qed

section \<open>Properties of the values\<close>

text \<open>
  The conversions on a few values: an array joins its elements and prints \<^verbatim>\<open>null\<close>
  as nothing, an object with an entry \<open>toString\<close> converts to no string, also inside
  an array; the values that \<^verbatim>\<open>!documentType\<close> takes for absent are
  \<^verbatim>\<open>undefined\<close>, \<^verbatim>\<open>null\<close>, \<^verbatim>\<open>false\<close>, \<open>0\<close> and the empty string.
\<close>

lemma json_text_examples:
  "json_text (JArr [JNum (js ''1''), JNull, JStr (js ''ab''), JArr [JBool True, JBool False]])
     = Some (js ''1,,ab,true,false'')"
  "json_text (JArr []) = Some []"
  "json_text (JObj [(js ''a'', JNum (js ''1''))]) = Some (js ''[object Object]'')"
  "json_text (JObj [(js ''toString'', JNum (js ''1''))]) = None"
  "json_text (JArr [JStr (js ''a''), JObj [(js ''toString'', JNull)]]) = None"
  by (simp_all add: js_def)

lemma falsy_iff:
  "falsy v \<longleftrightarrow> v \<in> {Undefined, Value JNull, Value (JBool False), Value (JNum (js ''0'')),
                      Value (JStr [])}"
  by (auto simp: falsy_def split: jsvalue.splits json.splits)

lemma written_examples:
  "written (JArr [JNum (js ''Infinity''), JObj [(js ''a'', JNum (js ''-Infinity''))]])
     = JArr [JNull, JObj [(js ''a'', JNull)]]"
  "written (JStr (js ''Infinity'')) = JStr (js ''Infinity'')"
  by (simp_all add: js_def)

text \<open>The members of an array and of a string under the names of their positions.\<close>

lemma own_member_examples:
  "own_member (MArray [JStr (js ''x''), JNull]) (js ''0'') = Some (JStr (js ''x''))"
  "own_member (MArray [JStr (js ''x''), JNull]) (js ''length'') = Some (JNum (js ''2''))"
  "own_member (MArray [JStr (js ''x''), JNull]) (js ''2'') = None"
  "own_member (MArray [JStr (js ''x''), JNull]) (js ''00'') = None"
  "own_member (MString (js ''hi'')) (js ''1'') = Some (JStr (js ''i''))"
  "entries (MString (js ''hi'')) = [(js ''0'', JStr (js ''h'')), (js ''1'', JStr (js ''i''))]"
  by (simp_all add: own_member_def entries_def index_of_def digits.simps js_def
      upt_conv_Cons)

section \<open>Properties of the resolver\<close>

text \<open>
  Claim C3 says that with an empty mapping the file at position \<open>i\<close> always resolves to
  \<open>document_i\<close>, and the handler's comments say the same (\<^verbatim>\<open>Fallback to document_i if
  no mapping found\<close>). For ordinary names the handler does what the claim says: with the
  mapping \<open>{"a.pdf": "drivers_license"}\<close> the file \<open>a.pdf\<close> at position 0 is a
  \<open>drivers_license\<close> and the file \<open>b.png\<close> at position 1 is \<open>document_1\<close>, and
  the file \<open>my@file.pdf\<close> finds the key \<open>my file.pdf\<close> by its normal form. For a file
  named like a member of \<^verbatim>\<open>Object.prototype\<close> the lookup \<^verbatim>\<open>mappings[name]\<close> finds
  that member, which is truthy, and both fallbacks are skipped: with the empty mapping the
  file \<open>constructor\<close> resolves to a built-in function at every position.
\<close>

theorem inherited_name_resolution:
  "resolve_document_type e (MObject []) (js ''constructor'') i = Builtin (js ''constructor'')
   \<and> resolve_document_type e (MObject []) (js ''constructor'') i
       \<noteq> Value (JStr (js ''document_'' @ digits i))
   \<and> resolve_document_type e (MObject [(js ''a.pdf'', JStr (js ''drivers_license''))])
         (js ''a.pdf'') 0
       = Value (JStr (js ''drivers_license''))
   \<and> resolve_document_type e (MObject [(js ''a.pdf'', JStr (js ''drivers_license''))])
         (js ''b.png'') 1
       = Value (JStr (js ''document_1''))
   \<and> resolve_document_type e (MObject [(js ''my file.pdf'', JStr (js ''proof_of_address''))])
         (js ''my@file.pdf'') 0
       = Value (JStr (js ''proof_of_address''))"
proof (intro conjI)
  show c: "resolve_document_type e (MObject []) (js ''constructor'') i
             = Builtin (js ''constructor'')"
    by (simp add: resolve_document_type_def get_member_def own_member_def inherited_names_def
        object_prototype_names_def falsy_def)
  show "resolve_document_type e (MObject []) (js ''constructor'') i
          \<noteq> Value (JStr (js ''document_'' @ digits i))"
    by (simp add: c)
  show "resolve_document_type e (MObject [(js ''a.pdf'', JStr (js ''drivers_license''))])
          (js ''a.pdf'') 0 = Value (JStr (js ''drivers_license''))"
    by (simp add: resolve_document_type_def get_member_def own_member_def falsy_def js_def)
  show "resolve_document_type e (MObject [(js ''a.pdf'', JStr (js ''drivers_license''))])
          (js ''b.png'') 1 = Value (JStr (js ''document_1''))"
    by (simp add: resolve_document_type_def get_member_def own_member_def inherited_names_def
        object_prototype_names_def entries_def falsy_def js_def normalize_def trim_def
        rtrim_def replace_special_def is_word_def is_space_def digits.simps)
  show "resolve_document_type e (MObject [(js ''my file.pdf'', JStr (js ''proof_of_address''))])
          (js ''my@file.pdf'') 0 = Value (JStr (js ''proof_of_address''))"
    by (simp add: resolve_document_type_def get_member_def own_member_def inherited_names_def
        object_prototype_names_def entries_def falsy_def js_def normalize_def trim_def
        rtrim_def replace_special_def is_word_def is_space_def)
qed

section \<open>Oversized files\<close>

text \<open>
  The number printed is the size in units of \<open>2^20\<close> bytes, in hundredths, off by at
  most half a hundredth.
\<close>

lemma hundredths_MB_rounds:
  "2 * hundredths_MB bytes * 1048576 \<le> 2 * 100 * bytes + 1048576
   \<and> 2 * 100 * bytes < 2 * hundredths_MB bytes * 1048576 + 1048576"
  unfolding hundredths_MB_def by linarith




section \<open>Compensation after a failed insert\<close>

lemma storage_upload_Inr:
  assumes "storage_upload e i p c w = (Inr path, w1)"
  shows "w1 = w\<lparr>calls := calls w @ [StorageUpload p c], blobs := blobs w @ [path]\<rparr>
         \<and> path = stored_path e p"
  using assms by (auto simp: storage_upload_def Let_def split: option.splits if_splits)

lemma storage_upload_remove_fails:
  "storage_upload (e\<lparr>remove_fails := r\<rparr>) i p c w = storage_upload e i p c w"
  by (simp add: storage_upload_def Let_def split: option.splits)

lemma inherited_names_remove_fails:
  "inherited_names (e\<lparr>remove_fails := r\<rparr>) m = inherited_names e m"
  by (simp add: inherited_names_def split: mappings.splits)

lemma resolve_remove_fails:
  "resolve_document_type (e\<lparr>remove_fails := r\<rparr>) m name i = resolve_document_type e m name i"
  by (simp add: resolve_document_type_def get_member_def inherited_names_remove_fails)

lemma locator_remove_fails:
  "locator (e\<lparr>remove_fails := r\<rparr>) bid m i file = locator e bid m i file"
  by (simp add: locator_def file_path_def to_string_def resolve_remove_fails
      split: jsvalue.splits)

text \<open>
  Claim C5: when the blob write of a file succeeds and the insert of its row fails, the
  error of the insert is recorded for the file, no success entry is added and no row is
  kept, the calls made for the file are the write, the insert and one removal of the
  written path, the loop goes on, and the error list and the success list are the same
  whether the removal fails or not (when it fails the blob stays in the store).
\<close>

theorem insert_failure_compensated:
  assumes size: "size_bytes file \<le> 5 * 1024 * 1024"
    and loc: "locator e bid m i file = Some filePath"
    and up: "storage_upload e i filePath (mimetype file) (world_of st) = (Inr path, w1)"
    and ins: "insert_error e i = Some message"
  shows "errors (process_file e bid m i file st) =
           errors st @ [js ''Failed to save record for '' @ originalname file @ js '': '' @ message]
         \<and> uploadedDocuments (process_file e bid m i file st) = uploadedDocuments st
         \<and> documents (world_of (process_file e bid m i file st)) = documents (world_of st)
         \<and> calls (world_of (process_file e bid m i file st)) =
             calls (world_of st) @
               [StorageUpload filePath (mimetype file),
                DocumentInsert
                  \<lparr>doc_id = [], business_id = bid,
                   document_type = resolve_document_type e m (originalname file) i,
                   document_name = originalname file, file_url = public_url e path,
                   file_size_bytes = size_bytes file, verification_status = js ''pending'',
                   uploaded_at = []\<rparr>,
                StorageRemove path]
         \<and> blobs (world_of (process_file e bid m i file st)) =
             (if remove_fails e i then blobs (world_of st) @ [path]
              else removeAll path (blobs (world_of st)))
         \<and> (\<forall>r. errors (process_file (e\<lparr>remove_fails := r\<rparr>) bid m i file st)
                  = errors (process_file e bid m i file st)
                \<and> uploadedDocuments (process_file (e\<lparr>remove_fails := r\<rparr>) bid m i file st)
                  = uploadedDocuments (process_file e bid m i file st))
         \<and> process_files e bid m i (file # rest) st =
             process_files e bid m (Suc i) rest (process_file e bid m i file st)"
proof -
  note w1 = storage_upload_Inr [OF up]
  have fp: "file_path e bid (resolve_document_type e m (originalname file) i) (now e i)
              (originalname file) = Some filePath"
    using loc by (simp add: locator_def)
  have pf: "process_file e bid m i file st =
      st\<lparr>world_of := storage_remove e i path
            (w1\<lparr>calls := calls w1 @ [DocumentInsert
                  \<lparr>doc_id = [], business_id = bid,
                   document_type = resolve_document_type e m (originalname file) i,
                   document_name = originalname file, file_url = public_url e path,
                   file_size_bytes = size_bytes file, verification_status = js ''pending'',
                   uploaded_at = []\<rparr>]\<rparr>),
         errors := errors st @
           [js ''Failed to save record for '' @ originalname file @ js '': '' @ message]\<rparr>"
    using size ins up fp by (simp add: process_file_def insert_document_def Let_def)
  have fp_r: "\<And>r. file_path (e\<lparr>remove_fails := r\<rparr>) bid
                (resolve_document_type (e\<lparr>remove_fails := r\<rparr>) m (originalname file) i)
                (now e i) (originalname file) = Some filePath"
    using loc locator_remove_fails by (simp add: locator_def)
  have up_r: "\<And>r. storage_upload (e\<lparr>remove_fails := r\<rparr>) i filePath (mimetype file)
                (world_of st) = (Inr path, w1)"
    using up by (simp add: storage_upload_remove_fails)
  have pf_r: "\<And>r. errors (process_file (e\<lparr>remove_fails := r\<rparr>) bid m i file st) =
      errors st @ [js ''Failed to save record for '' @ originalname file @ js '': '' @ message]
      \<and> uploadedDocuments (process_file (e\<lparr>remove_fails := r\<rparr>) bid m i file st)
          = uploadedDocuments st"
    using size ins up_r fp_r by (simp add: process_file_def insert_document_def Let_def)
  have conv: "\<exists>logged. to_string e (resolve_document_type e m (originalname file) i)
                 = Some logged"
    using fp by (auto simp: file_path_def Let_def split: option.splits)
  show ?thesis
    using w1 pf_r conv by (auto simp: pf storage_remove_def)
qed

lemma example_locator:
  "locator e (js ''b1'') example_mappings i (example_file ''a.pdf'' ''application/pdf'' n)
   = Some (js ''provider-documents/b1/drivers_license_'' @ digits (now e i) @ js ''.pdf'')"
  by (simp add: locator_def file_path_def to_string_def resolve_document_type_def
      get_member_def own_member_def falsy_def example_mappings_def example_file_def js_def)

theorem insert_failure_compensated_witness:
  "size_bytes (example_file ''a.pdf'' ''application/pdf'' 1000) \<le> 5 * 1024 * 1024
   \<and> insert_error failing_insert_env 0 = Some (js ''invalid input value for enum'')
   \<and> errors (process_file failing_insert_env (js ''b1'') example_mappings 0
        (example_file ''a.pdf'' ''application/pdf'' 1000) example_state)
      = [js ''Failed to save record for a.pdf: invalid input value for enum'']
   \<and> uploadedDocuments (process_file failing_insert_env (js ''b1'') example_mappings 0
        (example_file ''a.pdf'' ''application/pdf'' 1000) example_state) = []
   \<and> length (filter (\<lambda>c. c = StorageRemove
                 (js ''provider-documents/b1/drivers_license_1700000000000.pdf''))
        (calls (world_of (process_file failing_insert_env (js ''b1'') example_mappings 0
          (example_file ''a.pdf'' ''application/pdf'' 1000) example_state)))) = 1"
proof -
  let ?f = "example_file ''a.pdf'' ''application/pdf'' 1000"
  let ?p = "js ''provider-documents/b1/drivers_license_1700000000000.pdf''"
  have loc: "locator failing_insert_env (js ''b1'') example_mappings 0 ?f = Some ?p"
    by (simp add: example_locator)
       (simp add: failing_insert_env_def example_env_def digits.simps js_def)
  have h1: "size_bytes ?f \<le> 5 * 1024 * 1024" by (simp add: example_file_def)
  have h2: "storage_upload failing_insert_env 0 ?p (mimetype ?f) (world_of example_state)
            = (Inr ?p, example_world\<lparr>calls := [StorageUpload ?p (js ''application/pdf'')],
                                      blobs := [?p]\<rparr>)"
    by (simp add: storage_upload_def failing_insert_env_def example_env_def example_state_def
        example_world_def example_file_def)
  have h3: "insert_error failing_insert_env 0 = Some (js ''invalid input value for enum'')"
    by (simp add: failing_insert_env_def example_env_def)
  show ?thesis
    using insert_failure_compensated [OF h1 loc h2 h3] h1 h3
    by (simp add: example_state_def example_world_def example_file_def js_def)
qed

section \<open>Intake\<close>

lemma multer_scan_rejects:
  "\<exists>f\<in>set parts. originalname f \<noteq> []
      \<and> (mimetype f \<notin> set allowedTypes \<or> size_bytes f > 10 * 1024 * 1024)
     \<Longrightarrow> \<exists>message. message \<in> intake_messages \<and> multer_scan left parts = Inl message"
proof (induction parts arbitrary: left)
  case Nil
  then show ?case by simp
next
  case (Cons part rest)
  show ?case
  proof (cases "originalname part \<noteq> []
      \<and> (mimetype part \<notin> set allowedTypes \<or> size_bytes part > 10 * 1024 * 1024)")
    case True
    then show ?thesis by (auto simp: intake_messages_def)
  next
    case False
    with Cons.prems have "\<exists>f\<in>set rest. originalname f \<noteq> []
      \<and> (mimetype f \<notin> set allowedTypes \<or> size_bytes f > 10 * 1024 * 1024)" by auto
    then have "\<And>n. \<exists>message. message \<in> intake_messages \<and> multer_scan n rest = Inl message"
      by (rule Cons.IH)
    then obtain m1 m2 where a: "m1 \<in> intake_messages" "multer_scan left rest = Inl m1"
      and b: "m2 \<in> intake_messages" "multer_scan (left - 1) rest = Inl m2" by blast
    show ?thesis
    proof (cases "originalname part = []")
      case True
      with a show ?thesis by simp
    next
      case False
      with b show ?thesis by (auto simp: intake_messages_def)
    qed
  qed
qed

text \<open>A part without a filename is not a file of the batch, whatever its type is.\<close>

lemma nameless_part_is_dropped:
  "multer_array [example_file ''a.pdf'' ''application/pdf'' 1000,
                 example_file [] ''application/octet-stream'' 0]
   = Inr [example_file ''a.pdf'' ''application/pdf'' 1000]"
  by (simp add: multer_array_def example_file_def allowedTypes_def js_def)

text \<open>
  Claim C10 as stated fails on the test route: a POST whose URL contains \<open>test\<close> is
  answered with status 200 before the middleware runs, whatever its files are.
\<close>

theorem intake_test_route_counterexample:
  "mimetype (example_file ''b.gif'' ''image/gif'' 1000) \<notin> set allowedTypes
   \<and> handler example_env
       ((example_request [example_file ''a.pdf'' ''application/pdf'' 1000,
                          example_file ''b.gif'' ''image/gif'' 1000])
          \<lparr>url := Some (js ''/api/onboarding/upload-documents?mode=test'')\<rparr>)
       example_world
     = (\<lparr>status = 200,
         body = JObj [(js ''message'', JStr (js ''API is working'')),
                      (js ''timestamp'', JStr (js ''2023-11-14T22:13:20.000Z''))]\<rparr>,
        example_world)"
  by (simp add: handler_def preconditions_def example_request_def example_file_def
      example_env_def allowedTypes_def js_def)

text \<open>
  Claim C10, amended: when a POST whose URL does not contain \<open>test\<close> has a file part
  with a filename whose MIME type is not one of the three allowed ones or which holds more
  than \<open>10 * 1024 * 1024\<close> bytes, the answer is the single top-level error with status
  500, whose details are one of the three messages of the middleware, and the remote
  services are as they were: no file of the batch is processed, not even the valid ones.
\<close>

theorem intake_rejection_is_batch_fatal:
  assumes "http_method req = js ''POST''"
    and "\<not> (case url req of None \<Rightarrow> False | Some u \<Rightarrow> includes_str u (js ''test''))"
    and "\<exists>f\<in>set (sent_files req). originalname f \<noteq> []
            \<and> (mimetype f \<notin> set allowedTypes \<or> size_bytes f > 10 * 1024 * 1024)"
  shows "\<exists>message. message \<in> intake_messages
           \<and> handler e req w =
               (\<lparr>status = 500,
                 body = JObj [(js ''error'', JStr (js ''Internal server error'')),
                              (js ''details'', JStr message)]\<rparr>, w)"
proof -
  from multer_scan_rejects [OF assms(3)] obtain message
    where m: "message \<in> intake_messages" "multer_scan 10 (sent_files req) = Inl message"
    by blast
  then have "multer_array (sent_files req) = Inl message" by (simp add: multer_array_def)
  with assms(1,2) have "handler e req w =
               (\<lparr>status = 500,
                 body = JObj [(js ''error'', JStr (js ''Internal server error'')),
                              (js ''details'', JStr message)]\<rparr>, w)"
    by (simp add: handler_def preconditions_def internal_error_def)
  with m(1) show ?thesis by blast
qed

theorem intake_rejection_is_batch_fatal_witness:
  "http_method (example_request [example_file ''a.pdf'' ''application/pdf'' 1000,
                                  example_file ''b.gif'' ''image/gif'' 1000]) = js ''POST''
   \<and> originalname (example_file ''b.gif'' ''image/gif'' 1000) \<noteq> []
   \<and> mimetype (example_file ''b.gif'' ''image/gif'' 1000) \<notin> set allowedTypes
   \<and> handler example_env
       (example_request [example_file ''a.pdf'' ''application/pdf'' 1000,
                         example_file ''b.gif'' ''image/gif'' 1000]) example_world
     = (\<lparr>status = 500,
         body = JObj [(js ''error'', JStr (js ''Internal server error'')),
                      (js ''details'',
                       JStr (js ''Invalid file type. Only JPEG, PNG, and PDF files are allowed.''))]\<rparr>,
        example_world)"
proof -
  let ?req = "example_request [example_file ''a.pdf'' ''application/pdf'' 1000,
                               example_file ''b.gif'' ''image/gif'' 1000]"
  have h1: "http_method ?req = js ''POST''" by (simp add: example_request_def)
  have h2: "\<not> (case url ?req of None \<Rightarrow> False | Some u \<Rightarrow> includes_str u (js ''test''))"
    by (simp add: example_request_def js_def)
  have h3: "\<exists>f\<in>set (sent_files ?req). originalname f \<noteq> []
              \<and> (mimetype f \<notin> set allowedTypes \<or> size_bytes f > 10 * 1024 * 1024)"
    by (simp add: example_request_def example_file_def allowedTypes_def js_def)
  have m: "multer_array (sent_files ?req)
        = Inl (js ''Invalid file type. Only JPEG, PNG, and PDF files are allowed.'')"
    by (simp add: multer_array_def example_request_def example_file_def allowedTypes_def js_def)
  from intake_rejection_is_batch_fatal [OF h1 h2 h3, of example_env example_world]
  obtain message where r: "message \<in> intake_messages" "handler example_env ?req example_world =
           (\<lparr>status = 500,
             body = JObj [(js ''error'', JStr (js ''Internal server error'')),
                          (js ''details'', JStr message)]\<rparr>, example_world)" by blast
  have "handler example_env ?req example_world =
           (\<lparr>status = 500,
             body = JObj [(js ''error'', JStr (js ''Internal server error'')),
                          (js ''details'',
                           JStr (js ''Invalid file type. Only JPEG, PNG, and PDF files are allowed.''))]\<rparr>,
            example_world)"
    using h1 h2 m by (simp add: handler_def preconditions_def internal_error_def)
  moreover have "mimetype (example_file ''b.gif'' ''image/gif'' 1000) \<notin> set allowedTypes"
    by (simp add: example_file_def allowedTypes_def js_def)
  moreover have "originalname (example_file ''b.gif'' ''image/gif'' 1000) \<noteq> []"
    by (simp add: example_file_def js_def)
  ultimately show ?thesis using h1 r(2) by simp
qed

section \<open>The loop\<close>

lemma storage_upload_frame:
  assumes "storage_upload e i p c w = (r, w1)"
  shows "documents w1 = documents w \<and> profiles w1 = profiles w"
  using assms by (auto simp: storage_upload_def Let_def split: option.splits if_splits)

lemma insert_document_Inl:
  assumes "insert_document e i d w = (Inl message, w2)"
  shows "documents w2 = documents w \<and> profiles w2 = profiles w"
  using assms by (auto simp: insert_document_def Let_def split: option.splits)

lemma insert_document_Inr:
  assumes "insert_document e i d w = (Inr row, w2)"
  shows "documents w2 = documents w @ [row] \<and> profiles w2 = profiles w
         \<and> business_id row = business_id d"
  using assms by (auto simp: insert_document_def Let_def split: option.splits)

lemma storage_remove_frame:
  "documents (storage_remove e i p w) = documents w
   \<and> profiles (storage_remove e i p w) = profiles w"
  by (simp add: storage_remove_def)

lemma stringify_resolved:
  "\<not> inherits e m name \<Longrightarrow> stringify e (resolve_document_type e m name i) \<noteq> None"
proof -
  assume n: "\<not> inherits e m name"
  have g: "get_member e m name = Undefined \<or> (\<exists>v. get_member e m name = Value v)"
    using n by (auto simp: get_member_def inherits_def split: option.splits)
  have mn: "\<And>n kvs d. d = Undefined \<or> (\<exists>v. d = Value v)
              \<Longrightarrow> match_normalized n kvs d = Undefined \<or> (\<exists>v. match_normalized n kvs d = Value v)"
  proof -
    fix n kvs d
    show "d = Undefined \<or> (\<exists>v. d = Value v)
              \<Longrightarrow> match_normalized n kvs d = Undefined \<or> (\<exists>v. match_normalized n kvs d = Value v)"
      by (induction n kvs d rule: match_normalized.induct) auto
  qed
  have "\<exists>v. resolve_document_type e m name i = Value v"
    using g mn [OF g, of "normalize name" "entries m"]
    by (auto simp: resolve_document_type_def Let_def falsy_def)
  then show ?thesis by (auto simp: stringify_def)
qed

text \<open>
  One pass of the loop either adds one error and leaves the rows alone, or adds one
  success entry and one row of the business. The profiles are never touched.
\<close>

lemma process_file_summary:
  "profiles (world_of (process_file e bid m i file st)) = profiles (world_of st)
   \<and> ((uploadedDocuments (process_file e bid m i file st) = uploadedDocuments st
        \<and> (\<exists>message. errors (process_file e bid m i file st) = errors st @ [message])
        \<and> documents (world_of (process_file e bid m i file st)) = documents (world_of st))
      \<or> (errors (process_file e bid m i file st) = errors st
          \<and> (\<exists>entry row. success_entry entry
                \<and> (\<not> inherits e m (originalname file) \<longrightarrow> complete_entry entry)
                \<and> uploadedDocuments (process_file e bid m i file st)
                    = uploadedDocuments st @ [entry]
                \<and> business_id row = bid
                \<and> documents (world_of (process_file e bid m i file st))
                    = documents (world_of st) @ [row])))"
proof (cases "size_bytes file > 5 * (1024 * 1024)")
  case True
  then show ?thesis by (simp add: process_file_def)
next
  case False
  let ?t = "resolve_document_type e m (originalname file) i"
  show ?thesis
  proof (cases "file_path e bid ?t (now e i) (originalname file)")
    case None
    with False show ?thesis by (simp add: process_file_def)
  next
    case (Some p)
    obtain r w1 where up: "storage_upload e i p (mimetype file) (world_of st) = (r, w1)"
      by (cases "storage_upload e i p (mimetype file) (world_of st)")
    note f1 = storage_upload_frame [OF up]
    show ?thesis
    proof (cases r)
      case (Inl message)
      with up False Some f1 show ?thesis by (simp add: process_file_def Let_def)
    next
      case (Inr path)
      let ?d = "\<lparr>doc_id = [], business_id = bid, document_type = ?t,
                 document_name = originalname file, file_url = public_url e path,
                 file_size_bytes = size_bytes file, verification_status = js ''pending'',
                 uploaded_at = []\<rparr>"
      obtain r2 w2 where ins: "insert_document e i ?d w1 = (r2, w2)"
        by (cases "insert_document e i ?d w1")
      show ?thesis
      proof (cases r2)
        case (Inl message)
        note f2 = insert_document_Inl [OF ins [unfolded Inl]]
        have "process_file e bid m i file st =
                st\<lparr>world_of := storage_remove e i path w2,
                   errors := errors st @
                     [js ''Failed to save record for '' @ originalname file @ js '': '' @ message]\<rparr>"
          using up False Some Inr ins Inl by (simp add: process_file_def Let_def)
        then show ?thesis using f1 f2 by (simp add: storage_remove_frame)
      next
        case (Inr row)
        note f2 = insert_document_Inr [OF ins [unfolded Inr]]
        let ?entry = "JObj ([(js ''id'', JStr (doc_id row))]
                            @ (case stringify e ?t of
                                 None \<Rightarrow> []
                               | Some j \<Rightarrow> [(js ''documentType'', j)])
                            @ [(js ''fileName'', JStr (originalname file)),
                               (js ''url'', JStr (public_url e path)),
                               (js ''status'', JStr (js ''uploaded'')),
                               (js ''uploadedAt'', JStr (uploaded_at row))])"
        have pf: "process_file e bid m i file st =
                st\<lparr>world_of := w2, uploadedDocuments := uploadedDocuments st @ [?entry]\<rparr>"
          using up False Some \<open>r = Inr path\<close> ins Inr by (simp add: process_file_def Let_def)
        have se: "success_entry ?entry"
          by (cases "stringify e ?t") (simp_all add: success_entry_def is_string_def)
        have ce: "\<not> inherits e m (originalname file) \<longrightarrow> complete_entry ?entry"
        proof
          assume "\<not> inherits e m (originalname file)"
          then have "stringify e ?t \<noteq> None" by (rule stringify_resolved)
          then obtain j where "stringify e ?t = Some j" by blast
          then show "complete_entry ?entry" by (simp add: complete_entry_def)
        qed
        from pf se ce f1 f2 show ?thesis by auto
      qed
    qed
  qed
qed

lemma process_files_profiles:
  "process_files e bid m i files st = Inr st'
     \<Longrightarrow> profiles (world_of st') = profiles (world_of st)"
proof (induction files arbitrary: i st)
  case Nil then show ?case by simp
next
  case (Cons f rest)
  from Cons.prems have "process_files e bid m (Suc i) rest (process_file e bid m i f st) = Inr st'"
    by (simp split: option.splits)
  then have "profiles (world_of st') = profiles (world_of (process_file e bid m i f st))"
    by (rule Cons.IH)
  then show ?case by (simp add: process_file_summary)
qed

lemma process_files_stopped:
  "process_files e bid m i files st = Inl (message, w1)
     \<Longrightarrow> profiles w1 = profiles (world_of st)"
proof (induction files arbitrary: i st)
  case Nil then show ?case by simp
next
  case (Cons f rest)
  show ?case
  proof (cases "to_string e (resolve_document_type e m (originalname f) i)")
    case None
    with Cons.prems show ?thesis by simp
  next
    case (Some logged)
    with Cons.prems
    have "process_files e bid m (Suc i) rest (process_file e bid m i f st) = Inl (message, w1)"
      by simp
    then have "profiles w1 = profiles (world_of (process_file e bid m i f st))"
      by (rule Cons.IH)
    then show ?thesis by (simp add: process_file_summary)
  qed
qed

lemma process_files_counts:
  "process_files e bid m i files st = Inr st'
     \<Longrightarrow> length (uploadedDocuments st') + length (errors st')
         = length (uploadedDocuments st) + length (errors st) + length files"
proof (induction files arbitrary: i st)
  case Nil then show ?case by simp
next
  case (Cons f rest)
  from Cons.prems have "process_files e bid m (Suc i) rest (process_file e bid m i f st) = Inr st'"
    by (simp split: option.splits)
  then have "length (uploadedDocuments st') + length (errors st')
         = length (uploadedDocuments (process_file e bid m i f st))
           + length (errors (process_file e bid m i f st)) + length rest"
    by (rule Cons.IH)
  moreover have "length (uploadedDocuments (process_file e bid m i f st))
          + length (errors (process_file e bid m i f st))
        = length (uploadedDocuments st) + length (errors st) + 1"
    using process_file_summary [of e bid m i f st] by auto
  ultimately show ?case by simp
qed

lemma process_files_entries:
  "process_files e bid m i files st = Inr st'
     \<Longrightarrow> list_all success_entry (uploadedDocuments st)
     \<Longrightarrow> list_all success_entry (uploadedDocuments st')"
proof (induction files arbitrary: i st)
  case Nil then show ?case by simp
next
  case (Cons f rest)
  from Cons.prems(1)
  have r: "process_files e bid m (Suc i) rest (process_file e bid m i f st) = Inr st'"
    by (simp split: option.splits)
  have "list_all success_entry (uploadedDocuments (process_file e bid m i f st))"
    using process_file_summary [of e bid m i f st] Cons.prems(2) by auto
  with r show ?case by (rule Cons.IH)
qed

lemma process_files_complete:
  "process_files e bid m i files st = Inr st'
     \<Longrightarrow> list_all complete_entry (uploadedDocuments st)
     \<Longrightarrow> list_all (\<lambda>f. \<not> inherits e m (originalname f)) files
     \<Longrightarrow> list_all complete_entry (uploadedDocuments st')"
proof (induction files arbitrary: i st)
  case Nil then show ?case by simp
next
  case (Cons f rest)
  from Cons.prems(1)
  have r: "process_files e bid m (Suc i) rest (process_file e bid m i f st) = Inr st'"
    by (simp split: option.splits)
  from Cons.prems(3) have n: "\<not> inherits e m (originalname f)"
    and t: "list_all (\<lambda>f. \<not> inherits e m (originalname f)) rest" by simp_all
  have "list_all complete_entry (uploadedDocuments (process_file e bid m i f st))"
    using process_file_summary [of e bid m i f st] Cons.prems(2) n by auto
  with r show ?case using t by (rule Cons.IH)
qed

lemma process_files_persisted:
  "process_files e bid m i files st = Inr st'
     \<Longrightarrow> uploadedDocuments st \<noteq> [] \<longrightarrow> (\<exists>d\<in>set (documents (world_of st)). business_id d = bid)
     \<Longrightarrow> uploadedDocuments st' \<noteq> [] \<longrightarrow> (\<exists>d\<in>set (documents (world_of st')). business_id d = bid)"
proof (induction files arbitrary: i st)
  case Nil then show ?case by simp
next
  case (Cons f rest)
  from Cons.prems(1)
  have r: "process_files e bid m (Suc i) rest (process_file e bid m i f st) = Inr st'"
    by (simp split: option.splits)
  have "uploadedDocuments (process_file e bid m i f st) \<noteq> []
          \<longrightarrow> (\<exists>d\<in>set (documents (world_of (process_file e bid m i f st))).
                 business_id d = bid)"
    using process_file_summary [of e bid m i f st] Cons.prems(2) by auto
  with r show ?case by (rule Cons.IH)
qed

lemma process_files_documents:
  "process_files e bid m i files st = Inr st'
     \<Longrightarrow> \<exists>rows. documents (world_of st') = documents (world_of st) @ rows"
proof (induction files arbitrary: i st)
  case Nil then show ?case by simp
next
  case (Cons f rest)
  from Cons.prems
  have "process_files e bid m (Suc i) rest (process_file e bid m i f st) = Inr st'"
    by (simp split: option.splits)
  then obtain r2 where "documents (world_of st')
      = documents (world_of (process_file e bid m i f st)) @ r2"
    using Cons.IH by blast
  moreover obtain r1 where "documents (world_of (process_file e bid m i f st))
      = documents (world_of st) @ r1"
    using process_file_summary [of e bid m i f st] by auto
  ultimately show ?case by simp
qed

section \<open>The setup step\<close>

lemma preconditions_frame:
  "preconditions e req w = (r, w') \<Longrightarrow> profiles w' = profiles w \<and> documents w' = documents w"
  by (auto simp: preconditions_def select_provider_def select_profile_def Let_def
      split: if_splits sum.splits option.splits mappings_field.splits prod.splits)

lemma advance_setup_step_frame:
  assumes "\<not> existing_select_fails e"
    and "uploaded \<noteq> [] \<longrightarrow> (\<exists>d\<in>set (documents w). business_id d = bid)"
  shows "profiles (advance_setup_step e bid bp uploaded w) = profiles w"
proof (cases "uploaded = []")
  case True
  then show ?thesis by (simp add: advance_setup_step_def)
next
  case False
  with assms(2) obtain d where "d \<in> set (documents w)" "business_id d = bid" by blast
  then have "filter (\<lambda>d. business_id d = bid) (documents w) \<noteq> []"
    by (auto simp: filter_empty_conv)
  then have "take 1 (map doc_id (filter (\<lambda>d. business_id d = bid) (documents w))) \<noteq> []"
    by simp
  with assms(1) False show ?thesis
    by (auto simp: advance_setup_step_def select_existing_def min_def)
qed

text \<open>
  The update itself: it is made when the existence query fails and a file succeeded, and it
  sets the step of the business to 2.
\<close>

lemma advance_setup_step_on_failed_read:
  assumes "existing_select_fails e" and "\<not> update_fails e" and "uploaded \<noteq> []"
  shows "map setup_step (profiles (advance_setup_step e bid bp uploaded w))
         = map (\<lambda>p. if profile_id p = bid then 2 else setup_step p) (profiles w)"
  using assms
  by (simp add: advance_setup_step_def select_existing_def update_setup_step_def comp_def)

lemma run_batch_profiles:
  assumes "\<not> existing_select_fails e"
  shows "profiles (snd (run_batch e files bid parsed bp w)) = profiles w"
proof (cases "run_loop e bid parsed files (start_state w)")
  case (Inl stopped)
  obtain message w1 where s: "stopped = (message, w1)" by (cases stopped)
  have "profiles w1 = profiles w"
  proof (cases parsed)
    case None
    with Inl s show ?thesis
      by (auto simp: run_loop_def start_state_def split: list.splits)
  next
    case (Some m)
    with Inl s have "process_files e bid m 0 files (start_state w) = Inl (message, w1)"
      by (simp add: run_loop_def)
    then have "profiles w1 = profiles (world_of (start_state w))" by (rule process_files_stopped)
    then show ?thesis by (simp add: start_state_def)
  qed
  with Inl s show ?thesis by (simp add: run_batch_def)
next
  case (Inr st)
  have st: "profiles (world_of st) = profiles w
            \<and> (uploadedDocuments st \<noteq> []
                 \<longrightarrow> (\<exists>d\<in>set (documents (world_of st)). business_id d = bid))"
  proof (cases parsed)
    case None
    with Inr show ?thesis by (auto simp: run_loop_def start_state_def split: list.splits)
  next
    case (Some m)
    with Inr have s: "process_files e bid m 0 files (start_state w) = Inr st"
      by (simp add: run_loop_def)
    have "uploadedDocuments st \<noteq> []
            \<longrightarrow> (\<exists>d\<in>set (documents (world_of st)). business_id d = bid)"
      using s by (rule process_files_persisted) (simp add: start_state_def)
    moreover have "profiles (world_of st) = profiles (world_of (start_state w))"
      using s by (rule process_files_profiles)
    ultimately show ?thesis by (simp add: start_state_def)
  qed
  then have "profiles (advance_setup_step e bid bp (uploadedDocuments st) (world_of st))
               = profiles w"
    using advance_setup_step_frame [OF assms, of "uploadedDocuments st" "world_of st" bid bp]
    by simp
  with Inr show ?thesis
    by (simp add: run_batch_def select_qualifying_def select_final_def Let_def)
qed

text \<open>
  Claim C1 asks that a batch with a success, for a business that had no document before,
  moves the setup step to 2 or more. The handler asks for an existing document of the
  business after the loop has inserted the rows of the batch, so whenever that query
  returns it finds a row and the update is skipped: the profiles are what they were.
\<close>

theorem setup_step_never_advanced:
  assumes "\<not> existing_select_fails e"
  shows "profiles (snd (handler e req w)) = profiles w"
proof -
  obtain r w' where pre: "preconditions e req w = (r, w')"
    by (cases "preconditions e req w")
  note f = preconditions_frame [OF pre]
  show ?thesis
  proof (cases r)
    case (Inl res)
    with pre f show ?thesis by (simp add: handler_def)
  next
    case (Inr t)
    obtain files bid parsed bp where t: "t = (files, bid, parsed, bp)" by (cases t) auto
    with pre Inr f run_batch_profiles [OF assms, of files bid parsed bp w'] show ?thesis
      by (simp add: handler_def)
  qed
qed

text \<open>
  The failing input, evaluated: one PDF mapped to \<open>drivers_license\<close>, for a business
  that has an owner, a profile at setup step 1 and no document, with every remote call
  succeeding.
\<close>

lemma example_preconditions:
  "preconditions example_env
     (example_request [example_file ''a.pdf'' ''application/pdf'' 1000]) example_world
   = (Inr ([example_file ''a.pdf'' ''application/pdf'' 1000], js ''b1'', Some example_mappings,
           example_profile),
      example_world\<lparr>calls := [ProviderSelect (js ''u1'') (js ''b1''),
                                ProfileSelect (js ''b1'')]\<rparr>)"
  by (simp add: preconditions_def example_env_def example_request_def example_file_def
      example_world_def example_profile_def multer_array_def allowedTypes_def
      select_provider_def select_profile_def single_def Let_def js_def)

lemma example_loop:
  "process_files example_env (js ''b1'') example_mappings 0
     [example_file ''a.pdf'' ''application/pdf'' 1000]
     (start_state (example_world\<lparr>calls := [ProviderSelect (js ''u1'') (js ''b1''),
                                              ProfileSelect (js ''b1'')]\<rparr>))
   = Inr \<lparr>world_of = example_world
        \<lparr>calls := [ProviderSelect (js ''u1'') (js ''b1''), ProfileSelect (js ''b1''),
                   StorageUpload (js ''provider-documents/b1/drivers_license_1700000000000.pdf'')
                     (js ''application/pdf''),
                   DocumentInsert
                     \<lparr>doc_id = [], business_id = js ''b1'',
                      document_type = Value (JStr (js ''drivers_license'')),
                      document_name = js ''a.pdf'',
                      file_url = js ''https://store.example/provider-documents/b1/drivers_license_1700000000000.pdf'',
                      file_size_bytes = 1000, verification_status = js ''pending'',
                      uploaded_at = []\<rparr>],
         blobs := [js ''provider-documents/b1/drivers_license_1700000000000.pdf''],
         documents :=
           [\<lparr>doc_id = js ''doc-0'', business_id = js ''b1'',
             document_type = js ''drivers_license'', document_name = js ''a.pdf'',
             file_url = js ''https://store.example/provider-documents/b1/drivers_license_1700000000000.pdf'',
             file_size_bytes = 1000, verification_status = js ''pending'',
             uploaded_at = js ''2023-11-14T22:13:21.000Z''\<rparr>]\<rparr>,
      uploadedDocuments =
        [JObj [(js ''id'', JStr (js ''doc-0'')),
               (js ''documentType'', JStr (js ''drivers_license'')),
               (js ''fileName'', JStr (js ''a.pdf'')),
               (js ''url'', JStr (js ''https://store.example/provider-documents/b1/drivers_license_1700000000000.pdf'')),
               (js ''status'', JStr (js ''uploaded'')),
               (js ''uploadedAt'', JStr (js ''2023-11-14T22:13:21.000Z''))]],
      errors = []\<rparr>"
  by (simp add: process_file_def file_path_def to_string_def stringify_def
      resolve_document_type_def get_member_def own_member_def falsy_def
      storage_upload_def insert_document_def example_env_def example_mappings_def
      example_file_def example_world_def start_state_def digits.simps Let_def js_def)

lemma js_eq_iff: "js a = js b \<longleftrightarrow> a = b"
proof -
  have "inj (of_char :: char \<Rightarrow> nat)" by (rule injI) simp
  then show ?thesis by (simp add: js_def inj_map_eq_map)
qed

lemma example_digits: "digits 1000 = js ''1000''" "digits (Suc 0) = js ''1''"
  by (simp_all add: digits.simps js_def)

lemma example_env_flags:
  "\<not> existing_select_fails example_env" "\<not> qualifying_select_fails example_env"
  "\<not> final_select_fails example_env" "\<not> update_fails example_env"
  by (simp_all add: example_env_def)

lemma example_run:
  "handler example_env
     (example_request [example_file ''a.pdf'' ''application/pdf'' 1000]) example_world
   = (\<lparr>status = 200,
       body = JObj
         [(js ''success'', JBool True),
          (js ''uploaded'',
           JArr [JObj [(js ''id'', JStr (js ''doc-0'')),
                       (js ''documentType'', JStr (js ''drivers_license'')),
                       (js ''fileName'', JStr (js ''a.pdf'')),
                       (js ''url'', JStr (js ''https://store.example/provider-documents/b1/drivers_license_1700000000000.pdf'')),
                       (js ''status'', JStr (js ''uploaded'')),
                       (js ''uploadedAt'', JStr (js ''2023-11-14T22:13:21.000Z''))]]),
          (js ''allRequiredUploaded'', JBool False),
          (js ''requiredDocuments'',
           JArr [JStr (js ''drivers_license''), JStr (js ''proof_of_address''),
                 JStr (js ''professional_license''), JStr (js ''professional_certificate''),
                 JStr (js ''business_license'')]),
          (js ''uploadedDocuments'', JArr [JStr (js ''drivers_license'')]),
          (js ''debug'',
           JObj [(js ''finalDatabaseCheck'',
                  JArr [JObj [(js ''id'', JStr (js ''doc-0'')),
                              (js ''business_id'', JStr (js ''b1'')),
                              (js ''document_type'', JStr (js ''drivers_license'')),
                              (js ''document_name'', JStr (js ''a.pdf'')),
                              (js ''file_url'', JStr (js ''https://store.example/provider-documents/b1/drivers_license_1700000000000.pdf'')),
                              (js ''file_size_bytes'', JNum (js ''1000'')),
                              (js ''verification_status'', JStr (js ''pending'')),
                              (js ''uploaded_at'', JStr (js ''2023-11-14T22:13:21.000Z''))]]),
                 (js ''businessId'', JStr (js ''b1'')),
                 (js ''uploadedCount'', JNum (js ''1''))])]\<rparr>,
      example_world
        \<lparr>calls := [ProviderSelect (js ''u1'') (js ''b1''), ProfileSelect (js ''b1''),
                   StorageUpload (js ''provider-documents/b1/drivers_license_1700000000000.pdf'')
                     (js ''application/pdf''),
                   DocumentInsert
                     \<lparr>doc_id = [], business_id = js ''b1'',
                      document_type = Value (JStr (js ''drivers_license'')),
                      document_name = js ''a.pdf'',
                      file_url = js ''https://store.example/provider-documents/b1/drivers_license_1700000000000.pdf'',
                      file_size_bytes = 1000, verification_status = js ''pending'',
                      uploaded_at = []\<rparr>,
                   ExistingSelect (js ''b1''), QualifyingSelect (js ''b1''),
                   FinalSelect (js ''b1'')],
         blobs := [js ''provider-documents/b1/drivers_license_1700000000000.pdf''],
         documents :=
           [\<lparr>doc_id = js ''doc-0'', business_id = js ''b1'',
             document_type = js ''drivers_license'', document_name = js ''a.pdf'',
             file_url = js ''https://store.example/provider-documents/b1/drivers_license_1700000000000.pdf'',
             file_size_bytes = 1000, verification_status = js ''pending'',
             uploaded_at = js ''2023-11-14T22:13:21.000Z''\<rparr>]\<rparr>)"
  (is "_ = ?rhs")
proof -
  have pre: "handler example_env
     (example_request [example_file ''a.pdf'' ''application/pdf'' 1000]) example_world
    = run_batch example_env [example_file ''a.pdf'' ''application/pdf'' 1000] (js ''b1'')
        (Some example_mappings) example_profile
        (example_world\<lparr>calls := [ProviderSelect (js ''u1'') (js ''b1''),
                                  ProfileSelect (js ''b1'')]\<rparr>)"
    by (simp add: handler_def example_preconditions)
  have "run_batch example_env [example_file ''a.pdf'' ''application/pdf'' 1000] (js ''b1'')
        (Some example_mappings) example_profile
        (example_world\<lparr>calls := [ProviderSelect (js ''u1'') (js ''b1''),
                                  ProfileSelect (js ''b1'')]\<rparr>) = ?rhs"
    unfolding run_batch_def run_loop_def option.case example_loop sum.case
    by (simp add: advance_setup_step_def select_existing_def select_qualifying_def
        select_final_def example_env_flags Let_def required_types_def uploaded_types_def
        all_required_uploaded_def document_json_def example_profile_def example_world_def
        js_eq_iff example_digits del: set_filter)
  with pre show ?thesis by simp
qed

theorem setup_step_never_advanced_witness:
  "\<not> existing_select_fails example_env
   \<and> documents example_world = []
   \<and> map setup_step (profiles example_world) = [1]
   \<and> get_field (body (fst (handler example_env
         (example_request [example_file ''a.pdf'' ''application/pdf'' 1000]) example_world)))
         ''uploaded''
       = Some (JArr [JObj [(js ''id'', JStr (js ''doc-0'')),
                       (js ''documentType'', JStr (js ''drivers_license'')),
                       (js ''fileName'', JStr (js ''a.pdf'')),
                       (js ''url'', JStr (js ''https://store.example/provider-documents/b1/drivers_license_1700000000000.pdf'')),
                       (js ''status'', JStr (js ''uploaded'')),
                       (js ''uploadedAt'', JStr (js ''2023-11-14T22:13:21.000Z''))]])
   \<and> map setup_step (profiles (snd (handler example_env
         (example_request [example_file ''a.pdf'' ''application/pdf'' 1000]) example_world)))
       = [1]"
proof -
  have h: "\<not> existing_select_fails example_env" by (rule example_env_flags)
  have "map setup_step (profiles example_world) = [1]"
    by (simp add: example_world_def example_profile_def)
  moreover have "documents example_world = []" by (simp add: example_world_def)
  moreover have "get_field (body (fst (handler example_env
         (example_request [example_file ''a.pdf'' ''application/pdf'' 1000]) example_world)))
         ''uploaded''
       = Some (JArr [JObj [(js ''id'', JStr (js ''doc-0'')),
                       (js ''documentType'', JStr (js ''drivers_license'')),
                       (js ''fileName'', JStr (js ''a.pdf'')),
                       (js ''url'', JStr (js ''https://store.example/provider-documents/b1/drivers_license_1700000000000.pdf'')),
                       (js ''status'', JStr (js ''uploaded'')),
                       (js ''uploadedAt'', JStr (js ''2023-11-14T22:13:21.000Z''))]])"
    by (simp add: example_run get_field_def js_eq_iff)
  ultimately show ?thesis
    using h setup_step_never_advanced [OF h,
      of "example_request [example_file ''a.pdf'' ''application/pdf'' 1000]" example_world]
    by simp
qed

section \<open>The answer\<close>

lemma advance_setup_step_documents:
  "documents (advance_setup_step e bid bp uploaded w) = documents w"
  by (simp add: advance_setup_step_def select_existing_def update_setup_step_def)

text \<open>
  The answer to a batch that passed the preconditions and whose loop ran to its end in the
  state \<open>st\<close>, and the rows that the requirement read sees; the answer to a batch whose
  loop was stopped by a TypeError.
\<close>

lemma handler_answer:
  assumes "preconditions e req w = (Inr (files, bid, parsed, bp), w')"
    and "run_loop e bid parsed files (start_state w') = Inr st"
  shows "fst (handler e req w) =
           \<lparr>status = 200,
            body = JObj
              ([(js ''success'', JBool True),
                (js ''uploaded'', JArr (uploadedDocuments st))]
               @ (if errors st = [] then []
                  else [(js ''errors'', JArr (map JStr (errors st)))])
               @ [(js ''allRequiredUploaded'',
                   JBool (all_required_uploaded (required_types (business_type bp))
                            (qualifying_labels e bid bp st))),
                  (js ''requiredDocuments'', JArr (map JStr (required_types (business_type bp)))),
                  (js ''uploadedDocuments'', JArr (map JStr (qualifying_labels e bid bp st))),
                  (js ''debug'',
                   JObj [(js ''finalDatabaseCheck'',
                          (case final_check e bid bp st of
                             None \<Rightarrow> JNull
                           | Some rows \<Rightarrow> JArr (map document_json rows))),
                         (js ''businessId'', JStr bid),
                         (js ''uploadedCount'',
                          JNum (digits (length (uploadedDocuments st))))])])\<rparr>"
  using assms
  by (simp add: handler_def run_batch_def evaluated_world_def qualifying_labels_def
      final_check_def Let_def split: prod.splits)

lemma handler_documents:
  assumes "preconditions e req w = (Inr (files, bid, parsed, bp), w')"
    and "run_loop e bid parsed files (start_state w') = Inr st"
  shows "documents (snd (handler e req w)) = documents (evaluated_world e bid bp st)"
  using assms
  by (simp add: handler_def run_batch_def evaluated_world_def select_qualifying_def
      select_final_def Let_def split: prod.splits)

lemma handler_stopped:
  assumes "preconditions e req w = (Inr (files, bid, parsed, bp), w')"
    and "run_loop e bid parsed files (start_state w') = Inl (message, w1)"
  shows "handler e req w = (internal_error message, w1)"
  using assms by (simp add: handler_def run_batch_def)

lemma handler_keeps_documents:
  assumes "preconditions e req w = (Inr (files, bid, parsed, bp), w')"
    and "run_loop e bid parsed files (start_state w') = Inr st"
  shows "set (documents w) \<subseteq> set (documents (snd (handler e req w)))"
proof -
  have "\<exists>rows. documents (world_of st) = documents w' @ rows"
  proof (cases parsed)
    case None
    with assms(2) show ?thesis
      by (auto simp: run_loop_def start_state_def split: list.splits)
  next
    case (Some m)
    with assms(2) have "process_files e bid m 0 files (start_state w') = Inr st"
      by (simp add: run_loop_def)
    from process_files_documents [OF this] show ?thesis by (simp add: start_state_def)
  qed
  moreover have "documents w' = documents w" using preconditions_frame [OF assms(1)] by simp
  ultimately show ?thesis
    by (auto simp: handler_documents [OF assms] evaluated_world_def
        advance_setup_step_documents)
qed

lemma required_types_set: "set (required_types bt) = spec_required_set bt"
  by (auto simp: required_types_def spec_required_set_def)

lemma get_allRequiredUploaded:
  "get_field (JObj ([(js ''success'', a), (js ''uploaded'', b)]
                    @ (if c then [] else [(js ''errors'', d)])
                    @ [(js ''allRequiredUploaded'', x), (js ''requiredDocuments'', y),
                       (js ''uploadedDocuments'', z), (js ''debug'', u)]))
     ''allRequiredUploaded'' = Some x"
  by (simp add: get_field_def js_eq_iff)

lemma get_errors:
  "get_field (JObj ([(js ''success'', a), (js ''uploaded'', b)]
                    @ (if c then [] else [(js ''errors'', d)])
                    @ [(js ''allRequiredUploaded'', x), (js ''requiredDocuments'', y),
                       (js ''uploadedDocuments'', z), (js ''debug'', u)]))
     ''errors'' = (if c then None else Some d)"
  by (simp add: get_field_def js_eq_iff)

text \<open>The types of the two example files convert to strings, so a loop over them ends.\<close>

lemma example_prints:
  "to_string e (resolve_document_type e example_mappings
                  (originalname (example_file ''a.pdf'' type n)) i)
   = Some (js ''drivers_license'')"
  "to_string e (resolve_document_type e example_mappings
                  (originalname (example_file ''b.pdf'' type n)) i)
   = Some (js ''drivers_license'')"
  by (simp_all add: to_string_def resolve_document_type_def get_member_def own_member_def
      falsy_def example_mappings_def example_file_def js_def)

lemma example_completes:
  "run_loop e (js ''b1'') (Some example_mappings) [example_file ''a.pdf'' type n] st
   = Inr (process_file e (js ''b1'') example_mappings 0 (example_file ''a.pdf'' type n) st)"
  by (simp add: run_loop_def example_prints)

subsection \<open>Requirement evaluator\<close>

lemma complete_preconditions:
  "preconditions failing_read_env
     (example_request [example_file ''a.pdf'' ''application/pdf'' 1000]) complete_world
   = (Inr ([example_file ''a.pdf'' ''application/pdf'' 1000], js ''b1'', Some example_mappings,
           example_profile),
      complete_world\<lparr>calls := [ProviderSelect (js ''u1'') (js ''b1''),
                                 ProfileSelect (js ''b1'')]\<rparr>)"
  "preconditions example_env
     (example_request [example_file ''a.pdf'' ''application/pdf'' 1000]) complete_world
   = (Inr ([example_file ''a.pdf'' ''application/pdf'' 1000], js ''b1'', Some example_mappings,
           example_profile),
      complete_world\<lparr>calls := [ProviderSelect (js ''u1'') (js ''b1''),
                                 ProfileSelect (js ''b1'')]\<rparr>)"
  by (simp_all add: preconditions_def failing_read_env_def example_env_def example_request_def
      example_file_def complete_world_def example_world_def example_profile_def
      multer_array_def allowedTypes_def select_provider_def select_profile_def single_def
      Let_def js_def)

lemma complete_world_documents:
  "spec_required_set (business_type example_profile)
     \<subseteq> document_type ` {d \<in> set (documents complete_world).
                           business_id d = js ''b1''
                           \<and> verification_status d = js ''pending''}"
proof -
  have a: "document_type ` {d \<in> set (documents complete_world).
                           business_id d = js ''b1''
                           \<and> verification_status d = js ''pending''}
      = set (map document_type
               (filter (\<lambda>d. business_id d = js ''b1''
                            \<and> verification_status d = js ''pending'')
                  (documents complete_world)))"
    by simp
  have b: "map document_type
               (filter (\<lambda>d. business_id d = js ''b1''
                            \<and> verification_status d = js ''pending'')
                  (documents complete_world))
      = [js ''drivers_license'', js ''proof_of_address'', js ''professional_license'',
         js ''professional_certificate'', js ''business_license'']"
    by (simp add: complete_world_def example_document_def)
  show ?thesis unfolding a b
    by (simp add: spec_required_set_def example_profile_def)
qed

text \<open>
  Claim C2 as stated fails when the read of the qualifying rows returns an error: the
  handler then takes the empty list for the labels and answers \<open>false\<close>, also for a
  business whose five required documents are all stored and pending.
\<close>

theorem requirement_read_failure_counterexample:
  "status (fst (handler failing_read_env
         (example_request [example_file ''a.pdf'' ''application/pdf'' 1000]) complete_world))
     = 200
   \<and> spec_required_set (business_type example_profile)
       \<subseteq> document_type ` {d \<in> set (documents (snd (handler failing_read_env
               (example_request [example_file ''a.pdf'' ''application/pdf'' 1000])
               complete_world))).
             business_id d = js ''b1'' \<and> verification_status d = js ''pending''}
   \<and> get_field (body (fst (handler failing_read_env
         (example_request [example_file ''a.pdf'' ''application/pdf'' 1000]) complete_world)))
       ''allRequiredUploaded'' = Some (JBool False)"
proof -
  note pre = complete_preconditions(1)
  note loop = example_completes
    [of failing_read_env "''application/pdf''" 1000
        "start_state (complete_world\<lparr>calls := [ProviderSelect (js ''u1'') (js ''b1''),
                                                ProfileSelect (js ''b1'')]\<rparr>)"]
  have "get_field (body (fst (handler failing_read_env
         (example_request [example_file ''a.pdf'' ''application/pdf'' 1000]) complete_world)))
       ''allRequiredUploaded'' = Some (JBool False)"
    unfolding handler_answer [OF pre loop] response.simps get_allRequiredUploaded
    by (simp add: qualifying_labels_def select_qualifying_def uploaded_types_def
        failing_read_env_def all_required_uploaded_def required_types_def)
  moreover have "spec_required_set (business_type example_profile)
     \<subseteq> document_type ` {d \<in> set (documents (snd (handler failing_read_env
               (example_request [example_file ''a.pdf'' ''application/pdf'' 1000])
               complete_world))).
             business_id d = js ''b1'' \<and> verification_status d = js ''pending''}"
    using complete_world_documents handler_keeps_documents [OF pre loop]
    by blast
  moreover have "status (fst (handler failing_read_env
         (example_request [example_file ''a.pdf'' ''application/pdf'' 1000]) complete_world))
     = 200"
    by (simp add: handler_answer [OF pre loop])
  ultimately show ?thesis by simp
qed

text \<open>
  Claim C2, amended: for a batch that passed the preconditions and is answered with
  status 200, the field \<open>allRequiredUploaded\<close> of the answer is true if and only if the
  read of the qualifying rows returned and every label of the required set is the
  document type of a row of the business whose verification status is \<open>pending\<close>,
  \<open>verified\<close> or \<open>under_review\<close>. The required set is the one the specification
  words (\<open>spec_required_set\<close>): the four base labels for the legal form
  \<open>sole_proprietorship\<close>, and \<open>business_license\<close> besides for every other one. The
  rows are those of the table when the handler answers, with the rows of the batch.
\<close>

theorem requirement_evaluator:
  assumes "preconditions e req w = (Inr (files, bid, parsed, bp), w')"
    and "status (fst (handler e req w)) = 200"
  shows "get_field (body (fst (handler e req w))) ''allRequiredUploaded''
         = Some (JBool
             (\<not> qualifying_select_fails e
              \<and> (\<forall>t\<in>spec_required_set (business_type bp).
                    \<exists>d\<in>set (documents (snd (handler e req w))).
                       business_id d = bid \<and> document_type d = t
                       \<and> verification_status d
                           \<in> {js ''pending'', js ''verified'', js ''under_review''})))"
proof (cases "run_loop e bid parsed files (start_state w')")
  case (Inl stopped)
  obtain message w1 where "stopped = (message, w1)" by (cases stopped)
  with Inl have "handler e req w = (internal_error message, w1)"
    using handler_stopped [OF assms(1)] by simp
  with assms(2) show ?thesis by (simp add: internal_error_def)
next
  case (Inr st)
  let ?docs = "documents (evaluated_world e bid bp st)"
  have field: "get_field (body (fst (handler e req w))) ''allRequiredUploaded''
      = Some (JBool (all_required_uploaded (required_types (business_type bp))
                       (qualifying_labels e bid bp st)))"
    unfolding handler_answer [OF assms(1) Inr] response.simps get_allRequiredUploaded ..
  have nonempty: "js ''drivers_license'' \<in> spec_required_set (business_type bp)"
    by (simp add: spec_required_set_def)
  have "all_required_uploaded (required_types (business_type bp))
          (qualifying_labels e bid bp st)
        \<longleftrightarrow> (\<not> qualifying_select_fails e
              \<and> (\<forall>t\<in>spec_required_set (business_type bp).
                    \<exists>d\<in>set ?docs.
                       business_id d = bid \<and> document_type d = t
                       \<and> verification_status d
                           \<in> {js ''pending'', js ''verified'', js ''under_review''}))"
  proof (cases "qualifying_select_fails e")
    case True
    then have "qualifying_labels e bid bp st = []"
      by (simp add: qualifying_labels_def select_qualifying_def uploaded_types_def)
    with True nonempty show ?thesis
      by (auto simp: all_required_uploaded_def list_all_iff required_types_set)
  next
    case False
    then have "set (qualifying_labels e bid bp st)
        = document_type ` {d \<in> set ?docs. business_id d = bid
             \<and> verification_status d \<in> {js ''pending'', js ''verified'', js ''under_review''}}"
      by (simp add: qualifying_labels_def select_qualifying_def uploaded_types_def)
    with False show ?thesis
      by (auto simp: all_required_uploaded_def list_all_iff required_types_set)
  qed
  with field show ?thesis by (simp add: handler_documents [OF assms(1) Inr])
qed

theorem requirement_evaluator_witness:
  "preconditions example_env
     (example_request [example_file ''a.pdf'' ''application/pdf'' 1000]) complete_world
   = (Inr ([example_file ''a.pdf'' ''application/pdf'' 1000], js ''b1'', Some example_mappings,
           example_profile),
      complete_world\<lparr>calls := [ProviderSelect (js ''u1'') (js ''b1''),
                                 ProfileSelect (js ''b1'')]\<rparr>)
   \<and> status (fst (handler example_env
         (example_request [example_file ''a.pdf'' ''application/pdf'' 1000]) complete_world))
     = 200
   \<and> get_field (body (fst (handler example_env
         (example_request [example_file ''a.pdf'' ''application/pdf'' 1000]) complete_world)))
       ''allRequiredUploaded'' = Some (JBool True)
   \<and> get_field (body (fst (handler example_env
         (example_request [example_file ''a.pdf'' ''application/pdf'' 1000]) example_world)))
       ''allRequiredUploaded'' = Some (JBool False)"
proof -
  let ?req = "example_request [example_file ''a.pdf'' ''application/pdf'' 1000]"
  note pre = complete_preconditions(2)
  note loop = example_completes
    [of example_env "''application/pdf''" 1000
        "start_state (complete_world\<lparr>calls := [ProviderSelect (js ''u1'') (js ''b1''),
                                                ProfileSelect (js ''b1'')]\<rparr>)"]
  have ok: "status (fst (handler example_env ?req complete_world)) = 200"
    by (simp add: handler_answer [OF pre loop])
  have sub: "spec_required_set (business_type example_profile)
     \<subseteq> document_type ` {d \<in> set (documents (snd (handler example_env ?req complete_world))).
             business_id d = js ''b1'' \<and> verification_status d = js ''pending''}"
    using complete_world_documents handler_keeps_documents [OF pre loop]
    by blast
  have all: "\<forall>t\<in>spec_required_set (business_type example_profile).
       \<exists>d\<in>set (documents (snd (handler example_env ?req complete_world))).
          business_id d = js ''b1'' \<and> document_type d = t
          \<and> verification_status d \<in> {js ''pending'', js ''verified'', js ''under_review''}"
  proof
    fix t assume "t \<in> spec_required_set (business_type example_profile)"
    with sub have "t \<in> document_type `
        {d \<in> set (documents (snd (handler example_env ?req complete_world))).
             business_id d = js ''b1'' \<and> verification_status d = js ''pending''}" by blast
    then show "\<exists>d\<in>set (documents (snd (handler example_env ?req complete_world))).
          business_id d = js ''b1'' \<and> document_type d = t
          \<and> verification_status d \<in> {js ''pending'', js ''verified'', js ''under_review''}"
      by auto
  qed
  have t: "get_field (body (fst (handler example_env ?req complete_world)))
       ''allRequiredUploaded'' = Some (JBool True)"
    using requirement_evaluator [OF pre ok] all
    by (simp add: example_env_flags)
  have f: "get_field (body (fst (handler example_env ?req example_world)))
       ''allRequiredUploaded'' = Some (JBool False)"
    by (simp add: example_run get_field_def js_eq_iff)
  from t f ok pre show ?thesis by simp
qed

subsection \<open>The fields of the answer\<close>

lemma null_preconditions:
  "preconditions example_env
     ((example_request [example_file ''a.pdf'' ''application/pdf'' 1000])
        \<lparr>documentMappings := ParsedNull\<rparr>) example_world
   = (Inr ([example_file ''a.pdf'' ''application/pdf'' 1000], js ''b1'', None,
           example_profile),
      example_world\<lparr>calls := [ProviderSelect (js ''u1'') (js ''b1''),
                                ProfileSelect (js ''b1'')]\<rparr>)"
  by (simp add: preconditions_def example_env_def example_request_def example_file_def
      example_world_def example_profile_def multer_array_def allowedTypes_def
      select_provider_def select_profile_def single_def Let_def js_def)

text \<open>
  Claim C7 as stated fails twice. On a batch whose only file succeeds the answer has no
  field \<open>errors\<close> (the handler gives it the value \<^verbatim>\<open>undefined\<close> when its list is
  empty) and no field \<open>uploadedDocumentTypes\<close>. And a batch whose mapping text is
  \<^verbatim>\<open>null\<close> passes every precondition and is then answered with status 500 and the
  message of a TypeError, after the two lookups have been made.
\<close>

theorem response_fields_counterexample:
  "status (fst (handler example_env
       (example_request [example_file ''a.pdf'' ''application/pdf'' 1000]) example_world)) = 200
   \<and> keys (body (fst (handler example_env
       (example_request [example_file ''a.pdf'' ''application/pdf'' 1000]) example_world)))
     = [js ''success'', js ''uploaded'', js ''allRequiredUploaded'', js ''requiredDocuments'',
        js ''uploadedDocuments'', js ''debug'']
   \<and> get_field (body (fst (handler example_env
       (example_request [example_file ''a.pdf'' ''application/pdf'' 1000]) example_world)))
       ''errors'' = None
   \<and> get_field (body (fst (handler example_env
       (example_request [example_file ''a.pdf'' ''application/pdf'' 1000]) example_world)))
       ''uploadedDocumentTypes'' = None
   \<and> handler example_env
       ((example_request [example_file ''a.pdf'' ''application/pdf'' 1000])
          \<lparr>documentMappings := ParsedNull\<rparr>) example_world
     = (\<lparr>status = 500,
         body = JObj [(js ''error'', JStr (js ''Internal server error'')),
                      (js ''details'',
                       JStr (js ''Cannot read properties of null (reading 'a.pdf')''))]\<rparr>,
        example_world\<lparr>calls := [ProviderSelect (js ''u1'') (js ''b1''),
                                  ProfileSelect (js ''b1'')]\<rparr>)"
proof -
  have "handler example_env
       ((example_request [example_file ''a.pdf'' ''application/pdf'' 1000])
          \<lparr>documentMappings := ParsedNull\<rparr>) example_world
     = (\<lparr>status = 500,
         body = JObj [(js ''error'', JStr (js ''Internal server error'')),
                      (js ''details'',
                       JStr (js ''Cannot read properties of null (reading 'a.pdf')''))]\<rparr>,
        example_world\<lparr>calls := [ProviderSelect (js ''u1'') (js ''b1''),
                                  ProfileSelect (js ''b1'')]\<rparr>)"
    unfolding handler_def null_preconditions
    by (simp add: run_batch_def run_loop_def start_state_def internal_error_def
        example_env_def example_file_def js_def)
  then show ?thesis by (simp add: example_run keys_def get_field_def js_eq_iff)
qed

text \<open>
  Claim C7, amended: a batch that passes the preconditions with a mapping other than
  \<^verbatim>\<open>null\<close> and whose loop runs to its end (every resolved type converts to a
  string) is answered with status 200 and an object whose fields are, in order:
  \<open>success\<close>; \<open>uploaded\<close>, the success entries of the loop; \<open>errors\<close>, the error
  strings of the loop, present exactly when a file failed; \<open>allRequiredUploaded\<close>, the
  result of the requirement evaluator on the labels read; \<open>requiredDocuments\<close>, the
  required labels; \<open>uploadedDocuments\<close>, the labels read (there is no field
  \<open>uploadedDocumentTypes\<close>); and \<open>debug\<close>, with the rows of the final check, the
  business and the number of successes. A success entry has the string fields \<open>id\<close>,
  \<open>fileName\<close>, \<open>url\<close>, \<open>status\<close> and \<open>uploadedAt\<close> and, between the first two,
  the field \<open>documentType\<close>; that field is there for every entry when no file is named
  like a member that the mapping inherits. Every file of the batch accounts for one
  success entry or one error.
\<close>

theorem structured_result:
  assumes "preconditions e req w = (Inr (files, bid, Some m, bp), w')"
    and "process_files e bid m 0 files (start_state w') = Inr st"
  shows "fst (handler e req w) =
           \<lparr>status = 200,
            body = JObj
              ([(js ''success'', JBool True),
                (js ''uploaded'', JArr (uploadedDocuments st))]
               @ (if errors st = [] then []
                  else [(js ''errors'', JArr (map JStr (errors st)))])
               @ [(js ''allRequiredUploaded'',
                   JBool (all_required_uploaded (required_types (business_type bp))
                            (qualifying_labels e bid bp st))),
                  (js ''requiredDocuments'', JArr (map JStr (required_types (business_type bp)))),
                  (js ''uploadedDocuments'', JArr (map JStr (qualifying_labels e bid bp st))),
                  (js ''debug'',
                   JObj [(js ''finalDatabaseCheck'',
                          (case final_check e bid bp st of
                             None \<Rightarrow> JNull
                           | Some rows \<Rightarrow> JArr (map document_json rows))),
                         (js ''businessId'', JStr bid),
                         (js ''uploadedCount'',
                          JNum (digits (length (uploadedDocuments st))))])])\<rparr>
         \<and> list_all success_entry (uploadedDocuments st)
         \<and> (list_all (\<lambda>f. \<not> inherits e m (originalname f)) files
              \<longrightarrow> list_all complete_entry (uploadedDocuments st))
         \<and> length (uploadedDocuments st) + length (errors st) = length files"
proof -
  have loop: "run_loop e bid (Some m) files (start_state w') = Inr st"
    using assms(2) by (simp add: run_loop_def)
  have entries: "list_all success_entry (uploadedDocuments st)"
    using assms(2) by (rule process_files_entries) (simp add: start_state_def)
  have complete: "list_all (\<lambda>f. \<not> inherits e m (originalname f)) files
              \<longrightarrow> list_all complete_entry (uploadedDocuments st)"
    using process_files_complete [OF assms(2)] by (simp add: start_state_def)
  have count: "length (uploadedDocuments st) + length (errors st) = length files"
    using process_files_counts [OF assms(2)] by (simp add: start_state_def)
  from handler_answer [OF assms(1) loop] entries complete count show ?thesis by simp
qed

theorem structured_result_witness:
  "preconditions example_env
     (example_request [example_file ''a.pdf'' ''application/pdf'' 1000]) example_world
   = (Inr ([example_file ''a.pdf'' ''application/pdf'' 1000], js ''b1'', Some example_mappings,
           example_profile),
      example_world\<lparr>calls := [ProviderSelect (js ''u1'') (js ''b1''),
                                ProfileSelect (js ''b1'')]\<rparr>)
   \<and> list_all (\<lambda>f. \<not> inherits example_env example_mappings (originalname f))
       [example_file ''a.pdf'' ''application/pdf'' 1000]
   \<and> list_all complete_entry
       [JObj [(js ''id'', JStr (js ''doc-0'')),
              (js ''documentType'', JStr (js ''drivers_license'')),
              (js ''fileName'', JStr (js ''a.pdf'')),
              (js ''url'', JStr (js ''https://store.example/provider-documents/b1/drivers_license_1700000000000.pdf'')),
              (js ''status'', JStr (js ''uploaded'')),
              (js ''uploadedAt'', JStr (js ''2023-11-14T22:13:21.000Z''))]]
   \<and> keys (body (fst (handler example_env
       (example_request [example_file ''a.pdf'' ''application/pdf'' 1000]) example_world)))
     = [js ''success'', js ''uploaded'', js ''allRequiredUploaded'', js ''requiredDocuments'',
        js ''uploadedDocuments'', js ''debug'']
   \<and> get_field (body (fst (handler example_env
       (example_request [example_file ''a.pdf'' ''application/pdf'' 1000]) example_world)))
       ''uploaded''
     = Some (JArr
       [JObj [(js ''id'', JStr (js ''doc-0'')),
              (js ''documentType'', JStr (js ''drivers_license'')),
              (js ''fileName'', JStr (js ''a.pdf'')),
              (js ''url'', JStr (js ''https://store.example/provider-documents/b1/drivers_license_1700000000000.pdf'')),
              (js ''status'', JStr (js ''uploaded'')),
              (js ''uploadedAt'', JStr (js ''2023-11-14T22:13:21.000Z''))]])"
proof -
  have n: "list_all (\<lambda>f. \<not> inherits example_env example_mappings (originalname f))
       [example_file ''a.pdf'' ''application/pdf'' 1000]"
    by (simp add: inherits_def own_member_def example_mappings_def example_file_def js_eq_iff)
  from structured_result [OF example_preconditions example_loop] n example_preconditions
  show ?thesis by (simp add: keys_def get_field_def js_eq_iff)
qed

section \<open>Storage locators\<close>

lemma collision_preconditions:
  "preconditions frozen_clock_env
     (example_request [example_file ''a.pdf'' ''application/pdf'' 1000,
                       example_file ''b.pdf'' ''application/pdf'' 2000]) example_world
   = (Inr ([example_file ''a.pdf'' ''application/pdf'' 1000,
            example_file ''b.pdf'' ''application/pdf'' 2000], js ''b1'', Some example_mappings,
           example_profile),
      example_world\<lparr>calls := [ProviderSelect (js ''u1'') (js ''b1''),
                                ProfileSelect (js ''b1'')]\<rparr>)"
  by (simp add: preconditions_def frozen_clock_env_def example_env_def example_request_def
      example_file_def example_world_def example_profile_def multer_array_def allowedTypes_def
      select_provider_def select_profile_def single_def Let_def js_def)

lemma collision_loop:
  "run_loop frozen_clock_env (js ''b1'') (Some example_mappings)
     [example_file ''a.pdf'' ''application/pdf'' 1000,
      example_file ''b.pdf'' ''application/pdf'' 2000] st
   = Inr (process_file frozen_clock_env (js ''b1'') example_mappings 1
            (example_file ''b.pdf'' ''application/pdf'' 2000)
            (process_file frozen_clock_env (js ''b1'') example_mappings 0
               (example_file ''a.pdf'' ''application/pdf'' 1000) st))"
  by (simp add: run_loop_def example_prints)

lemma collision_errors:
  "errors (process_file frozen_clock_env (js ''b1'') example_mappings 1
            (example_file ''b.pdf'' ''application/pdf'' 2000)
            (process_file frozen_clock_env (js ''b1'') example_mappings 0
               (example_file ''a.pdf'' ''application/pdf'' 1000)
               (start_state (example_world\<lparr>calls := [ProviderSelect (js ''u1'') (js ''b1''),
                                                        ProfileSelect (js ''b1'')]\<rparr>))))
   = [js ''Failed to upload b.pdf: The resource already exists'']"
  by (simp add: process_file_def file_path_def to_string_def stringify_def
      resolve_document_type_def get_member_def own_member_def falsy_def
      storage_upload_def insert_document_def frozen_clock_env_def example_env_def
      example_mappings_def example_file_def start_state_def example_world_def
      digits.simps Let_def js_def)

text \<open>
  Claim C8 says that the timestamp makes every locator of a batch unique, and the handler
  introduces the path with the words \<^verbatim>\<open>Generate unique file path\<close>. The timestamp is
  the millisecond clock, read once per file, and nothing else tells two files of the same
  type and extension apart: when the clock gives the same reading for both, both get the
  same locator, the store refuses the second write and the answer reports the second file
  as failed.
\<close>

theorem locator_collision:
  "locator frozen_clock_env (js ''b1'') example_mappings 0
     (example_file ''a.pdf'' ''application/pdf'' 1000)
   = Some (js ''provider-documents/b1/drivers_license_1700000000000.pdf'')
   \<and> locator frozen_clock_env (js ''b1'') example_mappings 1
     (example_file ''b.pdf'' ''application/pdf'' 2000)
   = Some (js ''provider-documents/b1/drivers_license_1700000000000.pdf'')
   \<and> get_field (body (fst (handler frozen_clock_env
         (example_request [example_file ''a.pdf'' ''application/pdf'' 1000,
                           example_file ''b.pdf'' ''application/pdf'' 2000]) example_world)))
       ''errors''
     = Some (JArr [JStr (js ''Failed to upload b.pdf: The resource already exists'')])"
proof -
  have "locator frozen_clock_env (js ''b1'') example_mappings 0
     (example_file ''a.pdf'' ''application/pdf'' 1000)
   = Some (js ''provider-documents/b1/drivers_license_1700000000000.pdf'')"
    by (simp add: locator_def file_path_def to_string_def resolve_document_type_def
        get_member_def own_member_def falsy_def frozen_clock_env_def example_env_def
        example_mappings_def example_file_def digits.simps Let_def js_def)
  moreover have "locator frozen_clock_env (js ''b1'') example_mappings 1
     (example_file ''b.pdf'' ''application/pdf'' 2000)
   = Some (js ''provider-documents/b1/drivers_license_1700000000000.pdf'')"
    by (simp add: locator_def file_path_def to_string_def resolve_document_type_def
        get_member_def own_member_def falsy_def frozen_clock_env_def example_env_def
        example_mappings_def example_file_def digits.simps Let_def js_def)
  moreover have "get_field (body (fst (handler frozen_clock_env
         (example_request [example_file ''a.pdf'' ''application/pdf'' 1000,
                           example_file ''b.pdf'' ''application/pdf'' 2000]) example_world)))
       ''errors''
     = Some (JArr [JStr (js ''Failed to upload b.pdf: The resource already exists'')])"
    unfolding handler_answer [OF collision_preconditions collision_loop] response.simps
      get_errors collision_errors
    by simp
  ultimately show ?thesis by simp
qed

end
